theory Spec2Isabelle
  imports Complex_Main "HOL-Library.Char_ord" "HOL-Library.List_Lexorder"
    "HOL-Library.Product_Lexorder"
begin

section \<open>Python strings and numbers\<close>

text \<open>
  A Python \<open>str\<close> is modelled as a \<open>string\<close> whose characters are code points below 256.
  In that range the decimal digits of the regular expression \<open>\d\<close> are \<open>0\<close> to \<open>9\<close>, and the
  white space removed by \<open>str.strip\<close> is the set given by \<open>is_space\<close>. Python integers are
  unbounded: \<open>int\<close>. The interpreter's optional limit on the length of int/str conversions
  is not modelled.
\<close>

definition is_digit :: "char \<Rightarrow> bool" where
  "is_digit c = (let n = (of_char c :: nat) in 48 \<le> n \<and> n \<le> 57)"

definition is_space :: "char \<Rightarrow> bool" where
  "is_space c = (let n = (of_char c :: nat) in
     (9 \<le> n \<and> n \<le> 13) \<or> (28 \<le> n \<and> n \<le> 32) \<or> n = 133 \<or> n = 160)"

definition strip :: "string \<Rightarrow> string" where
  "strip s = rev (dropWhile is_space (rev (dropWhile is_space s)))"

definition lower_char :: "char \<Rightarrow> char" where
  "lower_char c = (let n = (of_char c :: nat) in
     if (65 \<le> n \<and> n \<le> 90) \<or> (192 \<le> n \<and> n \<le> 222 \<and> n \<noteq> 215) then char_of (n + 32) else c)"

definition lower :: "string \<Rightarrow> string" where
  "lower s = map lower_char s"

definition digit_val :: "char \<Rightarrow> nat" where
  "digit_val c = of_char c - 48"

definition digit_char :: "nat \<Rightarrow> char" where
  "digit_char d = char_of (48 + d)"

text \<open>\<open>int(number_str)\<close> on a string of decimal digits.\<close>

definition py_int :: "string \<Rightarrow> int" where
  "py_int ds = int (foldl (\<lambda>a c. 10 * a + digit_val c) 0 ds)"

text \<open>\<open>str(n)\<close> on an integer.\<close>

fun str_nat :: "nat \<Rightarrow> string" where
  "str_nat n = (if n < 10 then [digit_char n] else str_nat (n div 10) @ [digit_char (n mod 10)])"

declare str_nat.simps [simp del]

definition py_str_int :: "int \<Rightarrow> string" where
  "py_str_int v = (if v < 0 then CHR ''-'' # str_nat (nat (- v)) else str_nat (nat v))"

text \<open>
  \<open>str.zfill(width)\<close>: the string itself when it is already \<open>width\<close> long, otherwise zeros
  in front, after a leading sign when there is one.
\<close>

definition zfill :: "string \<Rightarrow> nat \<Rightarrow> string" where
  "zfill x width =
     (if width \<le> length x then x
      else (case x of
              c # rest \<Rightarrow>
                (if c = CHR ''+'' \<or> c = CHR ''-''
                 then c # replicate (width - length x) CHR ''0'' @ rest
                 else replicate (width - length x) CHR ''0'' @ x)
            | [] \<Rightarrow> replicate width CHR ''0''))"

section \<open>helpers/utils.py: the identifier sequencer\<close>

text \<open>
  \<open>re.finditer(r'\d+', s)\<close>: the spans \<open>(start, end)\<close> of the maximal digit runs, from left
  to right. The first argument is the current position, the second the start of the run
  that is open, if any.
\<close>

fun finditer_digits :: "nat \<Rightarrow> nat option \<Rightarrow> string \<Rightarrow> (nat \<times> nat) list" where
  "finditer_digits i None [] = []"
| "finditer_digits i (Some st) [] = [(st, i)]"
| "finditer_digits i None (c # cs) =
     (if is_digit c then finditer_digits (Suc i) (Some i) cs
      else finditer_digits (Suc i) None cs)"
| "finditer_digits i (Some st) (c # cs) =
     (if is_digit c then finditer_digits (Suc i) (Some st) cs
      else (st, i) # finditer_digits (Suc i) None cs)"

text \<open>
  \<open>increment_string(s, steps)\<close>. The \<open>except ValueError\<close> branch of the source guards
  \<open>int(number_str)\<close>, which cannot fail on a run of decimal digits, so it has no branch here.
\<close>

definition increment_string :: "string \<Rightarrow> int \<Rightarrow> string" where
  "increment_string s steps =
     (if s = [] then s
      else (let matches = finditer_digits 0 None s in
            if matches = [] then s
            else (let (start, end) = last matches;
                      prefix = take start s;
                      number_str = take (end - start) (drop start s);
                      suffix = drop end s;
                      current_val = py_int number_str;
                      new_val = current_val + steps;
                      new_number_str = zfill (py_str_int new_val) (length number_str)
                  in prefix @ new_number_str @ suffix)))"

section \<open>Python and SQLite values\<close>

text \<open>
  A Python float other than NaN is a finite double, which is a rational number, or an
  infinity. What the runtime does with real numbers stays a parameter of the model:
  \<open>round_double\<close> is the double nearest to a real number (an infinity on overflow) and
  \<open>float_repr\<close> is \<open>str\<close> of a finite float. Every theorem holds for any such pair.
\<close>

datatype pyfloat = Finite rat | PosInf | NegInf

datatype float_value = FNum pyfloat | FNaN

record runtime =
  round_double :: "rat \<Rightarrow> pyfloat"
  float_repr :: "rat \<Rightarrow> string"

datatype py_exn =
    IntegrityError string
  | OperationalError string
  | KeyError string
  | ValueError
  | TypeError
  | OverflowError
  | FileError string

text \<open>\<open>x == y\<close> on floats: NaN equals nothing.\<close>

fun float_eq :: "float_value \<Rightarrow> float_value \<Rightarrow> bool" where
  "float_eq (FNum a) (FNum b) = (a = b)"
| "float_eq _ _ = False"

text \<open>The grammar of \<open>float(str)\<close> and \<open>int(str)\<close>: \<open>digitpart ::= digit (["_"] digit)*\<close>.\<close>

fun digitpart :: "string \<Rightarrow> bool" where
  "digitpart [] = False"
| "digitpart [c] = is_digit c"
| "digitpart (c # u # cs) =
     (is_digit c \<and> (if u = CHR ''_'' then digitpart cs else digitpart (u # cs)))"

definition digits_value :: "string \<Rightarrow> nat" where
  "digits_value ds = foldl (\<lambda>a c. 10 * a + digit_val c) 0 (filter is_digit ds)"

definition strip_sign :: "string \<Rightarrow> bool \<times> string" where
  "strip_sign s =
     (case s of
        [] \<Rightarrow> (False, [])
      | c # cs \<Rightarrow>
          if c = CHR ''-'' then (True, cs) else if c = CHR ''+'' then (False, cs) else (False, s))"

definition parse_exponent :: "string \<Rightarrow> int option" where
  "parse_exponent e =
     (let (neg, ds) = strip_sign e in
      if digitpart ds then Some (if neg then - int (digits_value ds) else int (digits_value ds))
      else None)"

text \<open>
  \<open>number ::= [digitpart] "." digitpart | digitpart ["."]\<close>: the value of all the digits and
  the number of digits after the point.
\<close>

definition parse_number :: "string \<Rightarrow> (nat \<times> nat) option" where
  "parse_number m =
     (let ip = takeWhile (\<lambda>c. c \<noteq> CHR ''.'') m;
          rest = dropWhile (\<lambda>c. c \<noteq> CHR ''.'') m in
      case rest of
        [] \<Rightarrow> if digitpart ip then Some (digits_value ip, 0) else None
      | _ # fp \<Rightarrow>
          if (ip = [] \<and> digitpart fp) \<or> (digitpart ip \<and> (fp = [] \<or> digitpart fp))
          then Some (digits_value (ip @ fp), length (filter is_digit fp))
          else None)"

definition is_exp_mark :: "char \<Rightarrow> bool" where
  "is_exp_mark c = (c = CHR ''e'' \<or> c = CHR ''E'')"

text \<open>\<open>floatnumber ::= number [("e" | "E") ["+" | "-"] digitpart]\<close>, as an exact rational.\<close>

definition parse_floatnumber :: "string \<Rightarrow> rat option" where
  "parse_floatnumber s =
     (let m = takeWhile (\<lambda>c. \<not> is_exp_mark c) s;
          rest = dropWhile (\<lambda>c. \<not> is_exp_mark c) s in
      case parse_number m of
        None \<Rightarrow> None
      | Some (n, k) \<Rightarrow>
          (case rest of
             [] \<Rightarrow> Some (of_nat n / 10 ^ k)
           | _ # e \<Rightarrow>
               (case parse_exponent e of
                  None \<Rightarrow> None
                | Some x \<Rightarrow>
                    Some (if 0 \<le> x then of_nat n / 10 ^ k * 10 ^ nat x
                          else of_nat n / 10 ^ k / 10 ^ nat (- x)))))"

text \<open>\<open>float(s)\<close> on a string; \<open>None\<close> is \<open>ValueError\<close>.\<close>

definition py_float :: "runtime \<Rightarrow> string \<Rightarrow> float_value option" where
  "py_float rt s =
     (let (neg, body) = strip_sign (strip s); l = lower body in
      if l = ''inf'' \<or> l = ''infinity'' then Some (FNum (if neg then NegInf else PosInf))
      else if l = ''nan'' then Some FNaN
      else (case parse_floatnumber body of
              None \<Rightarrow> None
            | Some q \<Rightarrow> Some (FNum (round_double rt (if neg then - q else q)))))"


definition float_str :: "runtime \<Rightarrow> pyfloat \<Rightarrow> string" where
  "float_str rt f =
     (case f of Finite r \<Rightarrow> float_repr rt r | PosInf \<Rightarrow> ''inf'' | NegInf \<Rightarrow> ''-inf'')"

text \<open>
  A value of a spreadsheet row as pandas gives it: a missing value (\<open>None\<close>, NaN, NaT), a
  string, an integer, a float, or a timestamp, which carries its \<open>str\<close> rendering.
\<close>

datatype cell =
    CNone | CNaN | CNaT
  | CStr string | CInt int | CFloat pyfloat | CTimestamp string

fun isna :: "cell \<Rightarrow> bool" where
  "isna CNone = True"
| "isna CNaN = True"
| "isna CNaT = True"
| "isna _ = False"

fun cell_str :: "runtime \<Rightarrow> cell \<Rightarrow> string" where
  "cell_str rt CNone = ''None''"
| "cell_str rt CNaN = ''nan''"
| "cell_str rt CNaT = ''NaT''"
| "cell_str rt (CStr s) = s"
| "cell_str rt (CInt i) = py_str_int i"
| "cell_str rt (CFloat f) = float_str rt f"
| "cell_str rt (CTimestamp s) = s"



text \<open>
  A value SQLite stores and \<open>sqlite3\<close> returns. Values are stored as they are bound:
  every statement of this program binds to a column a value of the column's declared
  type or NULL, for which SQLite's type affinity changes nothing.
\<close>

datatype sqlval = Null | Text string | Integer int | Real pyfloat


fun sql_str :: "runtime \<Rightarrow> sqlval \<Rightarrow> string" where
  "sql_str rt Null = ''None''"
| "sql_str rt (Text s) = s"
| "sql_str rt (Integer i) = py_str_int i"
| "sql_str rt (Real f) = float_str rt f"

text \<open>Python truth of a stored value: \<open>None\<close>, the empty string and zero are false.\<close>

fun truthy :: "sqlval \<Rightarrow> bool" where
  "truthy Null = False"
| "truthy (Text s) = (s \<noteq> [])"
| "truthy (Integer i) = (i \<noteq> 0)"
| "truthy (Real f) = (f \<noteq> Finite 0)"

text \<open>
  The order of \<open>ORDER BY\<close>: NULL first, then numbers by value, then text byte by byte.
\<close>

fun float_key :: "pyfloat \<Rightarrow> int \<times> rat" where
  "float_key NegInf = (- 1, 0)"
| "float_key (Finite r) = (0, r)"
| "float_key PosInf = (1, 0)"

fun sql_key :: "sqlval \<Rightarrow> nat \<times> (int \<times> rat) \<times> string" where
  "sql_key Null = (0, (0, 0), [])"
| "sql_key (Integer i) = (1, (0, of_int i), [])"
| "sql_key (Real f) = (1, float_key f, [])"
| "sql_key (Text s) = (2, (0, 0), s)"

text \<open>A Python \<open>dict\<close> with its insertion order: \<open>d.get(k, default)\<close> and \<open>d[k] = v\<close>.\<close>

definition dict_get :: "('k \<times> 'v) list \<Rightarrow> 'k \<Rightarrow> 'v \<Rightarrow> 'v" where
  "dict_get d k dflt = (case map_of d k of None \<Rightarrow> dflt | Some v \<Rightarrow> v)"

fun dict_set :: "('k \<times> 'v) list \<Rightarrow> 'k \<Rightarrow> 'v \<Rightarrow> ('k \<times> 'v) list" where
  "dict_set [] k v = [(k, v)]"
| "dict_set ((k', v') # d) k v = (if k' = k then (k, v) # d else (k', v') # dict_set d k v)"

text \<open>\<open>d[k]\<close> raises \<open>KeyError\<close> on a missing key.\<close>

definition subscript :: "(string \<times> 'v) list \<Rightarrow> string \<Rightarrow> py_exn + 'v" where
  "subscript d k = (case map_of d k of None \<Rightarrow> Inl (KeyError k) | Some v \<Rightarrow> Inr v)"

text \<open>
  The entries of a dict display or parameter tuple are evaluated in order; the first one
  that raises ends the evaluation.
\<close>

fun eval_entries :: "(string \<times> (py_exn + 'v)) list \<Rightarrow> py_exn + (string \<times> 'v) list" where
  "eval_entries [] = Inr []"
| "eval_entries ((k, Inl e) # rest) = Inl e"
| "eval_entries ((k, Inr v) # rest) =
     (case eval_entries rest of Inl e \<Rightarrow> Inl e | Inr r \<Rightarrow> Inr ((k, v) # r))"

section \<open>helpers/db.py: the store\<close>

text \<open>
  A table is its column names and its rows in rowid order; a row is the \<open>dict(row)\<close> of
  the source, from column name to value. The database file holds the two tables once
  \<open>create_tables\<close> has run.
\<close>

type_synonym row = "(string \<times> sqlval) list"

record table =
  t_columns :: "string list"
  t_rows :: "row list"

record database =
  dim_assets :: table
  fact_inventory :: table

record db_file =
  file_dim_assets :: "table option"
  file_fact_inventory :: "table option"

definition dim_assets_columns :: "string list" where
  "dim_assets_columns =
     [''nama_aset'', ''brand'', ''sub_klasifikasi'', ''jenis_aset'', ''spesifikasi'',
      ''os_default'', ''layanan'', ''quantity'', ''harga_pembelian'', ''pemilik_asset'',
      ''unit'', ''client'', ''penyedia_aset'', ''pemegang_aset'', ''pic'', ''lokasi_aset'',
      ''area'', ''status'', ''sub_status'', ''masa_berlaku'', ''kerahasiaan'', ''integritas'',
      ''ketersediaan'', ''nilai'']"

definition fact_inventory_columns :: "string list" where
  "fact_inventory_columns =
     [''kode'', ''serial_number'', ''tanggal_po'', ''layanan'', ''brand'', ''nama_aset'',
      ''sub_klasifikasi'', ''jenis_aset'', ''spesifikasi'', ''os'', ''quantity'',
      ''harga_pembelian'', ''pemilik_asset'', ''unit'', ''client'', ''penyedia_aset'',
      ''pemegang_aset'', ''pic'', ''user'', ''lokasi_aset'', ''area'', ''status'',
      ''sub_status'', ''masa_berlaku'', ''kerahasiaan'', ''integritas'', ''ketersediaan'',
      ''nilai'', ''keterangan'', ''last_so_date'', ''timestamp'']"

text \<open>\<open>CREATE TABLE IF NOT EXISTS\<close>: a table that exists is kept as it is.\<close>

definition create_tables :: "db_file \<Rightarrow> database" where
  "create_tables f =
     \<lparr>dim_assets =
        (case file_dim_assets f of
           None \<Rightarrow> \<lparr>t_columns = dim_assets_columns, t_rows = []\<rparr>
         | Some t \<Rightarrow> t),
      fact_inventory =
        (case file_fact_inventory f of
           None \<Rightarrow> \<lparr>t_columns = fact_inventory_columns, t_rows = []\<rparr>
         | Some t \<Rightarrow> t)\<rparr>"

text \<open>
  A database whose two tables have at least the columns \<open>create_tables\<close> gives them.
\<close>

definition has_schema :: "database \<Rightarrow> bool" where
  "has_schema db =
     (set fact_inventory_columns \<subseteq> set (t_columns (fact_inventory db))
      \<and> set dim_assets_columns \<subseteq> set (t_columns (dim_assets db)))"

text \<open>
  The row an \<open>INSERT\<close> with the named values stores in a table with the columns \<open>cols\<close>: a
  column left out is NULL.
\<close>

definition stored_row :: "string list \<Rightarrow> row \<Rightarrow> row" where
  "stored_row cols named = map (\<lambda>c. (c, dict_get named c Null)) cols"

text \<open>
  \<open>INSERT [OR IGNORE] INTO name (columns) VALUES (...)\<close> on a table with primary key \<open>pk\<close>
  and the \<open>NOT NULL\<close> columns \<open>notnull\<close>; the result is the row count and the new table.
  SQLite checks \<open>NOT NULL\<close> before uniqueness, and a NULL key conflicts with nothing. With
  \<open>OR IGNORE\<close> a row that violates a constraint is skipped.
\<close>

definition sql_insert ::
  "string \<Rightarrow> string \<Rightarrow> string list \<Rightarrow> bool \<Rightarrow> row \<Rightarrow> table \<Rightarrow> py_exn + (nat \<times> table)" where
  "sql_insert name pk notnull or_ignore named t =
     (case filter (\<lambda>c. c \<notin> set (t_columns t)) (map fst named) of
        c # _ \<Rightarrow> Inl (OperationalError (''table '' @ name @ '' has no column named '' @ c))
      | [] \<Rightarrow>
          (let r = stored_row (t_columns t) named in
           case filter (\<lambda>c. dict_get r c Null = Null) notnull of
             c # _ \<Rightarrow>
               if or_ignore then Inr (0, t)
               else Inl (IntegrityError (''NOT NULL constraint failed: '' @ name @ ''.'' @ c))
           | [] \<Rightarrow>
               if dict_get r pk Null \<noteq> Null
                  \<and> (\<exists>r' \<in> set (t_rows t). dict_get r' pk Null = dict_get r pk Null)
               then (if or_ignore then Inr (0, t)
                     else Inl (IntegrityError (''UNIQUE constraint failed: '' @ name @ ''.'' @ pk)))
               else Inr (1, t\<lparr>t_rows := t_rows t @ [r]\<rparr>)))"

text \<open>The store with further rows at the end of \<open>fact_inventory\<close>.\<close>

definition add_items :: "row list \<Rightarrow> database \<Rightarrow> database" where
  "add_items rs db =
     db\<lparr>fact_inventory := (fact_inventory db)\<lparr>t_rows := t_rows (fact_inventory db) @ rs\<rparr>\<rparr>"

text \<open>
  A connection: the committed database and the state the connection works on. A statement
  that fails changes nothing; \<open>close\<close> drops what was not committed.
\<close>

record conn =
  committed :: database
  working :: database

definition get_connection :: "database \<Rightarrow> conn" where
  "get_connection db = \<lparr>committed = db, working = db\<rparr>"

definition commit :: "conn \<Rightarrow> conn" where
  "commit c = c\<lparr>committed := working c\<rparr>"

definition rollback :: "conn \<Rightarrow> conn" where
  "rollback c = c\<lparr>working := committed c\<rparr>"

definition close :: "conn \<Rightarrow> database" where
  "close c = committed c"

definition insert_fact_inventory :: "bool \<Rightarrow> row \<Rightarrow> conn \<Rightarrow> py_exn + (nat \<times> conn)" where
  "insert_fact_inventory or_ignore named c =
     (case sql_insert ''fact_inventory'' ''kode'' [''nama_aset''] or_ignore named
             (fact_inventory (working c)) of
        Inl e \<Rightarrow> Inl e
      | Inr (n, t) \<Rightarrow> Inr (n, c\<lparr>working := (working c)\<lparr>fact_inventory := t\<rparr>\<rparr>))"

definition insert_dim_assets :: "bool \<Rightarrow> row \<Rightarrow> conn \<Rightarrow> py_exn + (nat \<times> conn)" where
  "insert_dim_assets or_ignore named c =
     (case sql_insert ''dim_assets'' ''nama_aset'' [] or_ignore named
             (dim_assets (working c)) of
        Inl e \<Rightarrow> Inl e
      | Inr (n, t) \<Rightarrow> Inr (n, c\<lparr>working := (working c)\<lparr>dim_assets := t\<rparr>\<rparr>))"

text \<open>\<open>SELECT * FROM t WHERE col = ?\<close> with a string parameter.\<close>

definition select_where :: "string \<Rightarrow> string \<Rightarrow> table \<Rightarrow> row list" where
  "select_where col v t = filter (\<lambda>r. dict_get r col Null = Text v) (t_rows t)"

text \<open>
  \<open>ORDER BY col DESC LIMIT 1\<close> followed by \<open>fetchone\<close>: the first row of the descending
  order, if any. Among rows with equal keys SQL leaves the choice open; the model takes
  the one inserted last.
\<close>

definition order_desc_first :: "string \<Rightarrow> row list \<Rightarrow> row option" where
  "order_desc_first col rs =
     (case rev (sort_key (\<lambda>r. sql_key (dict_get r col Null)) rs) of
        [] \<Rightarrow> None
      | r # _ \<Rightarrow> Some r)"

definition get_asset_by_name :: "string \<Rightarrow> database \<Rightarrow> row option" where
  "get_asset_by_name nama_aset db =
     (case select_where ''nama_aset'' nama_aset (dim_assets db) of
        [] \<Rightarrow> None
      | r # _ \<Rightarrow> Some r)"

definition get_all_assets :: "database \<Rightarrow> row list" where
  "get_all_assets db =
     sort_key (\<lambda>r. sql_key (dict_get r ''nama_aset'' Null)) (t_rows (dim_assets db))"

definition get_inventory_template :: "string \<Rightarrow> database \<Rightarrow> row option" where
  "get_inventory_template nama_aset db =
     order_desc_first ''timestamp'' (select_where ''nama_aset'' nama_aset (fact_inventory db))"

definition get_latest_item :: "string \<Rightarrow> database \<Rightarrow> row option" where
  "get_latest_item nama_aset db =
     order_desc_first ''kode'' (select_where ''nama_aset'' nama_aset (fact_inventory db))"

text \<open>
  The parameters of the \<open>INSERT\<close> of \<open>insert_inventory(data)\<close>, column by column. The last
  one is \<open>datetime.now().isoformat()\<close>, here \<open>now\<close>; no key of \<open>data\<close> is read for it.
\<close>

definition insert_inventory_values :: "string \<Rightarrow> row \<Rightarrow> row" where
  "insert_inventory_values now data =
     [(''kode'', dict_get data ''Kode'' Null),
      (''serial_number'', dict_get data ''Serial Number'' Null),
      (''tanggal_po'', dict_get data ''Tanggal PO'' Null),
      (''layanan'', dict_get data ''Layanan'' Null),
      (''brand'', dict_get data ''Brand'' Null),
      (''nama_aset'', dict_get data ''Nama Aset'' Null),
      (''sub_klasifikasi'', dict_get data ''Sub Klasifikasi'' Null),
      (''jenis_aset'', dict_get data ''Jenis Aset'' Null),
      (''spesifikasi'', dict_get data ''Spesifikasi'' Null),
      (''os'', dict_get data ''OS'' Null),
      (''quantity'', dict_get data ''Quantity'' Null),
      (''harga_pembelian'', dict_get data ''Harga Pembelian'' Null),
      (''pemilik_asset'', dict_get data ''Pemilik Asset'' Null),
      (''unit'', dict_get data ''Unit'' Null),
      (''client'', dict_get data ''Client'' Null),
      (''penyedia_aset'', dict_get data ''Penyedia Aset'' Null),
      (''pemegang_aset'', dict_get data ''Pemegang Aset'' Null),
      (''pic'', dict_get data ''PIC'' Null),
      (''user'', dict_get data ''User'' Null),
      (''lokasi_aset'', dict_get data ''Lokasi Aset'' Null),
      (''area'', dict_get data ''Area'' Null),
      (''status'', dict_get data ''Status'' Null),
      (''sub_status'', dict_get data ''Sub Status'' Null),
      (''masa_berlaku'', dict_get data ''Masa Berlaku'' Null),
      (''kerahasiaan'', dict_get data ''Kerahasiaan'' Null),
      (''integritas'', dict_get data ''Integritas'' Null),
      (''ketersediaan'', dict_get data ''Ketersediaan'' Null),
      (''nilai'', dict_get data ''Nilai'' Null),
      (''keterangan'', dict_get data ''Keterangan'' Null),
      (''last_so_date'', dict_get data ''Last SO Date'' Null),
      (''timestamp'', Text now)]"

text \<open>\<open>insert_inventory(data)\<close>: one connection, one \<open>INSERT\<close>, one commit.\<close>

definition insert_inventory :: "string \<Rightarrow> row \<Rightarrow> database \<Rightarrow> (py_exn + unit) \<times> database" where
  "insert_inventory now data db =
     (let c = get_connection db in
      case insert_fact_inventory False (insert_inventory_values now data) c of
        Inl e \<Rightarrow> (Inl e, close c)
      | Inr (n, c') \<Rightarrow> (Inr (), close (commit c')))"

definition kode_exists :: "string \<Rightarrow> database \<Rightarrow> bool" where
  "kode_exists kode db = (select_where ''kode'' kode (fact_inventory db) \<noteq> [])"

definition serial_exists :: "string \<Rightarrow> database \<Rightarrow> bool" where
  "serial_exists serial_number db =
     (select_where ''serial_number'' serial_number (fact_inventory db) \<noteq> [])"

text \<open>
  \<open>upsert_asset_and_inventory(asset_data, inventory_data)\<close>: the asset is looked up and,
  when absent, inserted; otherwise the empty classification fields of \<open>inventory_data\<close> are
  filled from it. Then the inventory row is inserted and the connection commits. Any
  exception rolls back and is raised again.
\<close>

definition fill_from_existing :: "row \<Rightarrow> row \<Rightarrow> row" where
  "fill_from_existing existing inventory_data =
     (let filled =
        foldl (\<lambda>d key.
                 if map_of d key = None \<or> \<not> truthy (dict_get d key Null)
                 then dict_set d key (dict_get existing key (Text []))
                 else d)
          inventory_data [''brand'', ''sub_klasifikasi'', ''jenis_aset'', ''spesifikasi'']
      in if map_of filled ''os'' = None \<or> \<not> truthy (dict_get filled ''os'' Null)
         then dict_set filled ''os'' (dict_get existing ''os_default'' (Text []))
         else filled)"

definition upsert_inventory_values :: "string \<Rightarrow> row \<Rightarrow> row" where
  "upsert_inventory_values now inventory_data =
     map (\<lambda>c. (c, dict_get inventory_data c Null))
       [''kode'', ''serial_number'', ''tanggal_po'', ''layanan'', ''brand'', ''nama_aset'',
        ''sub_klasifikasi'', ''jenis_aset'', ''spesifikasi'', ''os'', ''quantity'',
        ''harga_pembelian'', ''pemilik_asset'', ''unit'', ''client'', ''penyedia_aset'',
        ''pemegang_aset'', ''pic'', ''user'', ''lokasi_aset'', ''area'', ''status'',
        ''sub_status'', ''masa_berlaku'', ''kerahasiaan'', ''integritas'', ''ketersediaan'',
        ''nilai'', ''keterangan'', ''last_so_date'']
     @ [(''timestamp'', Text now)]"

text \<open>
  The body of the \<open>try\<close> block: the exception raised, if any, and the connection as the
  block leaves it. \<open>SELECT ... WHERE nama_aset = ?\<close> finds no row when the parameter is NULL.
\<close>

definition upsert_body :: "string \<Rightarrow> row \<Rightarrow> row \<Rightarrow> conn \<Rightarrow> py_exn option \<times> conn" where
  "upsert_body now asset_data inventory_data c =
     (case subscript asset_data ''nama_aset'' of
        Inl e \<Rightarrow> (Some e, c)
      | Inr name \<Rightarrow>
          (case filter (\<lambda>r. name \<noteq> Null \<and> dict_get r ''nama_aset'' Null = name)
                  (t_rows (dim_assets (working c))) of
             [] \<Rightarrow>
               (case insert_dim_assets False
                       [(''nama_aset'', name),
                        (''brand'', dict_get asset_data ''brand'' (Text [])),
                        (''sub_klasifikasi'', dict_get asset_data ''sub_klasifikasi'' (Text [])),
                        (''jenis_aset'', dict_get asset_data ''jenis_aset'' (Text [])),
                        (''spesifikasi'', dict_get asset_data ''spesifikasi'' (Text [])),
                        (''os_default'', dict_get asset_data ''os_default'' (Text []))] c of
                  Inl e \<Rightarrow> (Some e, c)
                | Inr (n, c1) \<Rightarrow>
                    (case insert_fact_inventory False
                            (upsert_inventory_values now inventory_data) c1 of
                       Inl e \<Rightarrow> (Some e, c1)
                     | Inr (m, c2) \<Rightarrow> (None, commit c2)))
           | existing # _ \<Rightarrow>
               (case insert_fact_inventory False
                       (upsert_inventory_values now (fill_from_existing existing inventory_data))
                       c of
                  Inl e \<Rightarrow> (Some e, c)
                | Inr (m, c2) \<Rightarrow> (None, commit c2))))"

definition upsert_asset_and_inventory ::
  "string \<Rightarrow> row \<Rightarrow> row \<Rightarrow> database \<Rightarrow> (py_exn + unit) \<times> database" where
  "upsert_asset_and_inventory now asset_data inventory_data db =
     (case upsert_body now asset_data inventory_data (get_connection db) of
        (Some e, c') \<Rightarrow> (Inl e, close (rollback c'))
      | (None, c') \<Rightarrow> (Inr (), close c'))"

section \<open>app.py: the bulk creation of inventory items\<close>

text \<open>
  The values of the widgets of the dialog when the save button is clicked. \<open>tanggal_po\<close> is
  the \<open>str\<close> of the chosen date; \<open>quantity\<close> is an integer of at least 1 by the widget's
  \<open>min_value\<close>.
\<close>

record form =
  f_kode :: string
  f_serial_number :: string
  f_tanggal_po :: string
  f_layanan :: string
  f_quantity :: nat
  f_harga_pembelian :: pyfloat
  f_status :: string
  f_sub_status :: string
  f_user :: string
  f_lokasi_aset :: string
  f_area :: string
  f_pemegang_aset :: string
  f_client :: string
  f_pemilik_asset :: string
  f_unit :: string
  f_pic :: string
  f_penyedia_aset :: string
  f_kerahasiaan :: pyfloat
  f_integritas :: pyfloat
  f_ketersediaan :: pyfloat
  f_nilai :: pyfloat
  f_masa_berlaku :: string
  f_keterangan :: string

text \<open>
  \<open>get_default(key, master_key)\<close>: the template's value, else the master asset's, else
  the empty string. \<open>pd.notna\<close> of a stored value is false for NULL only.
\<close>

definition get_default :: "row option \<Rightarrow> row option \<Rightarrow> string \<Rightarrow> string option \<Rightarrow> sqlval" where
  "get_default template master_asset key master_key =
     (case (case template of
              None \<Rightarrow> None
            | Some t \<Rightarrow>
                if t \<noteq> [] \<and> map_of t key \<noteq> None \<and> dict_get t key Null \<noteq> Null
                then Some (dict_get t key Null) else None) of
        Some v \<Rightarrow> v
      | None \<Rightarrow>
          (let actual_master_key = (case master_key of Some k \<Rightarrow> k | None \<Rightarrow> key) in
           case master_asset of
             None \<Rightarrow> Text []
           | Some m \<Rightarrow>
               if m \<noteq> [] \<and> map_of m actual_master_key \<noteq> None
                  \<and> dict_get m actual_master_key Null \<noteq> Null
               then dict_get m actual_master_key Null else Text []))"

text \<open>\<open>master_asset[mkey] if master_asset else get_default(key)\<close>.\<close>

definition master_or_default :: "row option \<Rightarrow> row option \<Rightarrow> string \<Rightarrow> string \<Rightarrow> py_exn + sqlval" where
  "master_or_default template master_asset mkey key =
     (case master_asset of
        Some m \<Rightarrow> if m \<noteq> [] then subscript m mkey else Inr (get_default template master_asset key None)
      | None \<Rightarrow> Inr (get_default template master_asset key None))"

text \<open>The dict \<open>inventory_data\<close> of one iteration.\<close>

definition inventory_data ::
  "row option \<Rightarrow> row option \<Rightarrow> string \<Rightarrow> form \<Rightarrow> string \<Rightarrow> string \<Rightarrow> py_exn + row" where
  "inventory_data template master_asset selected_asset_name f current_kode current_serial =
     eval_entries
       [(''Kode'', Inr (Text current_kode)),
        (''Serial Number'', Inr (Text current_serial)),
        (''Nama Aset'', Inr (Text selected_asset_name)),
        (''Tanggal PO'', Inr (Text (f_tanggal_po f))),
        (''Layanan'', Inr (Text (f_layanan f))),
        (''Brand'', master_or_default template master_asset ''brand'' ''brand''),
        (''Sub Klasifikasi'',
           master_or_default template master_asset ''sub_klasifikasi'' ''sub_klasifikasi''),
        (''Jenis Aset'', master_or_default template master_asset ''jenis_aset'' ''jenis_aset''),
        (''Spesifikasi'', master_or_default template master_asset ''spesifikasi'' ''spesifikasi''),
        (''OS'', master_or_default template master_asset ''os_default'' ''os''),
        (''Quantity'', Inr (Integer 1)),
        (''Harga Pembelian'', Inr (Real (f_harga_pembelian f))),
        (''Pemilik Asset'', Inr (Text (f_pemilik_asset f))),
        (''Unit'', Inr (Text (f_unit f))),
        (''Client'', Inr (Text (f_client f))),
        (''Penyedia Aset'', Inr (Text (f_penyedia_aset f))),
        (''Pemegang Aset'', Inr (Text (f_pemegang_aset f))),
        (''PIC'', Inr (Text (f_pic f))),
        (''User'', Inr (Text (f_user f))),
        (''Lokasi Aset'', Inr (Text (f_lokasi_aset f))),
        (''Area'', Inr (Text (f_area f))),
        (''Status'', Inr (Text (f_status f))),
        (''Sub Status'', Inr (Text (f_sub_status f))),
        (''Masa Berlaku'', Inr (Text (f_masa_berlaku f))),
        (''Kerahasiaan'', Inr (Real (f_kerahasiaan f))),
        (''Integritas'', Inr (Real (f_integritas f))),
        (''Ketersediaan'', Inr (Real (f_ketersediaan f))),
        (''Nilai'', Inr (Real (f_nilai f))),
        (''Keterangan'', Inr (Text (f_keterangan f))),
        (''Last SO Date'', Inr Null)]"

text \<open>
  The bulk loop \<open>for i in range(quantity)\<close>, from iteration \<open>i\<close> with \<open>n\<close> iterations left:
  \<open>mk\<close> builds \<open>inventory_data\<close> from the current code and serial, \<open>clock i\<close> is the time of
  the insert of iteration \<open>i\<close>. An exception leaves the loop with the database as the
  inserts committed so far left it.
\<close>

fun bulk_loop ::
  "(nat \<Rightarrow> string) \<Rightarrow> (string \<Rightarrow> string \<Rightarrow> py_exn + row) \<Rightarrow> nat \<Rightarrow> nat \<Rightarrow> string \<Rightarrow> string \<Rightarrow>
   string list \<Rightarrow> database \<Rightarrow> (py_exn + string list) \<times> database" where
  "bulk_loop clock mk i 0 current_kode current_serial created_kodes db =
     (Inr created_kodes, db)"
| "bulk_loop clock mk i (Suc n) current_kode current_serial created_kodes db =
     (let kode = (if 0 < i then increment_string current_kode 1 else current_kode);
          serial = (if 0 < i \<and> current_serial \<noteq> [] then increment_string current_serial 1
                    else current_serial) in
      case mk kode serial of
        Inl e \<Rightarrow> (Inl e, db)
      | Inr data \<Rightarrow>
          (case insert_inventory (clock i) data db of
             (Inl e, db') \<Rightarrow> (Inl e, db')
           | (Inr u, db') \<Rightarrow>
               bulk_loop clock mk (Suc i) n kode serial (created_kodes @ [kode]) db'))"

text \<open>
  What the dialog shows after the click: the validation errors, or the success message
  with the quantity and the list of created codes, or the text of the exception.
\<close>

datatype shown =
    No_master_data
  | Validation_errors "string list"
  | Success nat "string list"
  | Error_shown py_exn

definition save_items ::
  "(nat \<Rightarrow> string) \<Rightarrow> row option \<Rightarrow> row option \<Rightarrow> string \<Rightarrow> form \<Rightarrow> database \<Rightarrow> shown \<times> database" where
  "save_items clock template master_asset selected_asset_name f db =
     (let errors =
        (if f_kode f = [] then [''Kode base value is required''] else [])
        @ (if f_kode f \<noteq> [] \<and> kode_exists (f_kode f) db
           then [''Base Kode '' @ [CHR 0x27] @ f_kode f @ [CHR 0x27]
                 @ '' already exists. Please choose a starting value that doesn''
                 @ [CHR 0x27] @ ''t exist.'']
           else [])
      in if errors \<noteq> [] then (Validation_errors errors, db)
         else (case bulk_loop clock
                      (inventory_data template master_asset selected_asset_name f)
                      0 (f_quantity f) (f_kode f) (f_serial_number f) [] db of
                 (Inl e, db') \<Rightarrow> (Error_shown e, db')
               | (Inr created_kodes, db') \<Rightarrow> (Success (f_quantity f) created_kodes, db')))"

text \<open>
  The dialog: without a master asset it ends with a warning. Otherwise the template and
  the master asset of the selected asset are read from the store and the click is
  handled. The selected name is the one the select box returns.
\<close>

definition add_inventory_dialog ::
  "(nat \<Rightarrow> string) \<Rightarrow> string \<Rightarrow> form \<Rightarrow> database \<Rightarrow> shown \<times> database" where
  "add_inventory_dialog clock selected_asset_name f db =
     (if get_all_assets db = [] then (No_master_data, db)
      else save_items clock (get_inventory_template selected_asset_name db)
             (get_asset_by_name selected_asset_name db) selected_asset_name f db)"

text \<open>
  The codes and serial numbers of a batch, as the specification describes them: the base
  value first, then the sequencer applied to the value of the iteration before, the
  serial number only while it is not empty.
\<close>

definition sequence_code :: "string \<Rightarrow> nat \<Rightarrow> string" where
  "sequence_code base j = ((\<lambda>s. increment_string s 1) ^^ j) base"

definition sequence_serial :: "string \<Rightarrow> nat \<Rightarrow> string" where
  "sequence_serial base j = ((\<lambda>s. if s \<noteq> [] then increment_string s 1 else s) ^^ j) base"

text \<open>
  A master asset row that has the five columns the loop reads from it, as every row of
  \<open>dim_assets\<close> read with \<open>SELECT *\<close> has.
\<close>

definition master_complete :: "row option \<Rightarrow> bool" where
  "master_complete master_asset =
     (case master_asset of
        None \<Rightarrow> True
      | Some m \<Rightarrow>
          list_all (\<lambda>k. map_of m k \<noteq> None)
            [''brand'', ''sub_klasifikasi'', ''jenis_aset'', ''spesifikasi'', ''os_default''])"

section \<open>helpers/db.py: ingesting a spreadsheet\<close>

text \<open>
  What \<open>pd.read_excel\<close> gives: the column labels (their \<open>str\<close>) and the rows, each with one
  value per column. \<open>row.get(col)\<close> is the value under the first column of that name, or
  nothing when there is no such column.
\<close>

record dataframe =
  df_columns :: "string list"
  df_rows :: "cell list list"

definition row_get :: "string list \<Rightarrow> cell list \<Rightarrow> string \<Rightarrow> cell option" where
  "row_get cols r col = map_of (zip cols r) col"

text \<open>\<open>row.get(col, '')\<close>.\<close>

definition row_get_default :: "string list \<Rightarrow> cell list \<Rightarrow> string \<Rightarrow> cell" where
  "row_get_default cols r col = (case row_get cols r col of None \<Rightarrow> CStr [] | Some v \<Rightarrow> v)"





datatype ingest_error = Asset_error string py_exn | Inventory_error string py_exn

record stats =
  assets_added :: nat
  inventory_added :: nat
  errors :: "ingest_error list"






section \<open>helpers/automation.py: the directory scan\<close>

text \<open>
  The report of one file (\<open>file_path\<close> is the key \<open>file\<close> of the source). The source adds a \<open>message\<close> built from the file name and the
  lengths of the three lists; it is left out.
\<close>

record detected =
  file_path :: string
  filename :: string
  directory :: string
  total_rows :: nat
  new_rows :: "(string \<times> string) list list"
  changed_rows :: "(string \<times> string) list list"
  missing_rows :: "(string \<times> sqlval) list list"

text \<open>The process-wide dict \<open>SCAN_RESULTS\<close> and its initial value.\<close>

record scan_results =
  detected_files :: "detected list"
  last_scan :: "string option"
  status :: string


text \<open>
  What the scan sees of the file system: for each directory whether it exists and the
  files \<open>glob\<close> lists for \<open>*.xlsx\<close>, each with its path and with what
  \<open>pd.read_excel(f, header=5)\<close> gives or raises.
\<close>

record xlsx_file =
  path :: string
  content :: "py_exn + dataframe"

record dir_entry =
  dir_path :: string
  dir_exists :: bool
  dir_xlsx :: "xlsx_file list"

definition basename :: "string \<Rightarrow> string" where
  "basename p = rev (takeWhile (\<lambda>c. c \<noteq> CHR ''/'') (rev p))"

definition startswith :: "string \<Rightarrow> string \<Rightarrow> bool" where
  "startswith s pre = (take (length pre) s = pre)"

text \<open>
  The query \<open>SELECT * FROM fact_inventory WHERE is_deleted = 0 OR is_deleted IS NULL\<close> and
  the dict \<open>db_inventory\<close> built from its rows, keyed by \<open>row['kode']\<close>. The query names
  the column \<open>is_deleted\<close>: on a table without it SQLite raises.
\<close>

definition not_deleted :: "row \<Rightarrow> bool" where
  "not_deleted r =
     (let v = dict_get r ''is_deleted'' Null in
      v = Integer 0 \<or> v = Real (Finite 0) \<or> v = Null)"

definition load_inventory :: "database \<Rightarrow> py_exn + (sqlval \<times> row) list" where
  "load_inventory db =
     (if ''is_deleted'' \<notin> set (t_columns (fact_inventory db))
      then Inl (OperationalError ''no such column: is_deleted'')
      else Inr (foldl (\<lambda>d r. dict_set d (dict_get r ''kode'' Null) r) []
                  (filter not_deleted (t_rows (fact_inventory db)))))"

definition compare_fields :: "(string \<times> string) list" where
  "compare_fields =
     [(''Tanggal PO'', ''tanggal_po''),
      (''Layanan'', ''layanan''),
      (''Brand'', ''brand''),
      (''Sub Klasifikasi'', ''sub_klasifikasi''),
      (''Jenis Aset'', ''jenis_aset''),
      (''Spesifikasi'', ''spesifikasi''),
      (''OS'', ''os''),
      (''Quantity'', ''quantity''),
      (''Harga Pembelian'', ''harga_pembelian''),
      (''Pemilik Asset'', ''pemilik_asset''),
      (''Unit'', ''unit''),
      (''Client'', ''client''),
      (''Penyedia Aset'', ''penyedia_aset''),
      (''Pemegang Aset'', ''pemegang_aset''),
      (''PIC'', ''pic''),
      (''User'', ''user''),
      (''Lokasi Aset'', ''lokasi_aset''),
      (''Area'', ''area''),
      (''Status'', ''status''),
      (''Sub Status'', ''sub_status''),
      (''Masa Berlaku'', ''masa_berlaku''),
      (''Kerahasiaan'', ''kerahasiaan''),
      (''Integritas'', ''integritas''),
      (''Ketersediaan'', ''ketersediaan''),
      (''Nilai'', ''nilai''),
      (''Keterangan'', ''keterangan'')]"

text \<open>
  \<open>excel_val\<close> from \<open>raw_excel = row.get(excel_col, '')\<close> and \<open>db_val\<close> from
  \<open>raw_db = db_row.get(db_col, '')\<close>; the argument is \<open>None\<close> when the key is missing.
\<close>

definition nan_to_empty :: "string \<Rightarrow> string" where
  "nan_to_empty v = (if lower v = ''nan'' then [] else v)"

definition excel_value :: "runtime \<Rightarrow> cell option \<Rightarrow> string" where
  "excel_value rt raw =
     (let raw_excel = (case raw of None \<Rightarrow> CStr [] | Some v \<Rightarrow> v) in
      nan_to_empty (if isna raw_excel then [] else strip (cell_str rt raw_excel)))"

definition db_value :: "runtime \<Rightarrow> sqlval option \<Rightarrow> string" where
  "db_value rt raw =
     (let raw_db = (case raw of None \<Rightarrow> Text [] | Some v \<Rightarrow> v) in
      nan_to_empty (if raw_db = Null then [] else strip (sql_str rt raw_db)))"

text \<open>
  The \<open>try\<close> block: true when the \<open>continue\<close> is reached, that is when both values are
  not empty, both are accepted by \<open>float\<close> and the two floats are equal.
\<close>

definition numeric_equal :: "runtime \<Rightarrow> string \<Rightarrow> string \<Rightarrow> bool" where
  "numeric_equal rt excel_val db_val =
     (excel_val \<noteq> [] \<and> db_val \<noteq> [] \<and>
      (case py_float rt excel_val of
         None \<Rightarrow> False
       | Some excel_num \<Rightarrow>
           (case py_float rt db_val of
              None \<Rightarrow> False
            | Some db_num \<Rightarrow> float_eq excel_num db_num)))"

text \<open>Whether one pair of values sets \<open>has_changes\<close>.\<close>

definition field_changed :: "runtime \<Rightarrow> cell option \<Rightarrow> sqlval option \<Rightarrow> bool" where
  "field_changed rt raw_excel raw_db =
     (let excel_val = excel_value rt raw_excel; db_val = db_value rt raw_db in
      \<not> numeric_equal rt excel_val db_val \<and> excel_val \<noteq> db_val)"

text \<open>One turn of the loop over \<open>compare_fields\<close>, on \<open>(has_changes, change_record)\<close>.\<close>

fun compare_field ::
  "runtime \<Rightarrow> string list \<Rightarrow> cell list \<Rightarrow> row \<Rightarrow> bool \<times> (string \<times> string) list \<Rightarrow>
   string \<times> string \<Rightarrow> bool \<times> (string \<times> string) list" where
  "compare_field rt cols r db_row (has_changes, change_record) (excel_col, db_col) =
     (if field_changed rt (row_get cols r excel_col) (map_of db_row db_col)
      then (True,
            dict_set
              (dict_set change_record (excel_col @ '' (Excel)'')
                 (excel_value rt (row_get cols r excel_col)))
              (excel_col @ '' (DB)'') (db_value rt (map_of db_row db_col)))
      else (has_changes, change_record))"

text \<open>\<open>{str(k): (str(v) if pd.notna(v) else '') for k, v in row.items()}\<close>.\<close>

definition row_dict :: "runtime \<Rightarrow> string list \<Rightarrow> cell list \<Rightarrow> (string \<times> string) list" where
  "row_dict rt cols r =
     foldl (\<lambda>d (k, v). dict_set d k (if isna v then [] else cell_str rt v)) [] (zip cols r)"

text \<open>
  One turn of the loop over the rows of a file, on
  \<open>(new_rows, changed_rows, excel_kodes)\<close>.
\<close>

fun classify_row ::
  "runtime \<Rightarrow> (sqlval \<times> row) list \<Rightarrow> string list \<Rightarrow>
   (string \<times> string) list list \<times> (string \<times> string) list list \<times> string list \<Rightarrow> cell list \<Rightarrow>
   (string \<times> string) list list \<times> (string \<times> string) list list \<times> string list" where
  "classify_row rt db_inventory cols (new, changed, excel_kodes) r =
     (let kode = strip (cell_str rt (row_get_default cols r ''Kode'')) in
      if kode = [] then (new, changed, excel_kodes)
      else
        (case map_of db_inventory (Text kode) of
           None \<Rightarrow> (new @ [row_dict rt cols r], changed, excel_kodes @ [kode])
         | Some db_row \<Rightarrow>
             (let (has_changes, change_record) =
                    foldl (compare_field rt cols r db_row) (False, [(''Kode'', kode)])
                      compare_fields
              in (new, (if has_changes then changed @ [change_record] else changed),
                  excel_kodes @ [kode]))))"

text \<open>The stored codes that no row of the file carries.\<close>

definition in_excel_kodes :: "sqlval \<Rightarrow> string list \<Rightarrow> bool" where
  "in_excel_kodes kode excel_kodes = (case kode of Text k \<Rightarrow> k \<in> set excel_kodes | _ \<Rightarrow> False)"

definition missing_of :: "(sqlval \<times> row) list \<Rightarrow> string list \<Rightarrow> (string \<times> sqlval) list list" where
  "missing_of db_inventory excel_kodes =
     map (\<lambda>(kode, db_row).
            [(''Kode'', kode),
             (''Nama Aset'', dict_get db_row ''nama_aset'' (Text [])),
             (''Serial Number'', dict_get db_row ''serial_number'' (Text [])),
             (''User'', dict_get db_row ''user'' (Text [])),
             (''Lokasi Aset'', dict_get db_row ''lokasi_aset'' (Text []))])
       (filter (\<lambda>(kode, db_row). \<not> in_excel_kodes kode excel_kodes) db_inventory)"

text \<open>
  The body of the loop over the files of a directory: the report of the file, or nothing
  when the file is a lock file, cannot be read, is not an asset file or shows no
  difference.
\<close>

definition scan_file :: "runtime \<Rightarrow> (sqlval \<times> row) list \<Rightarrow> string \<Rightarrow> xlsx_file \<Rightarrow> detected option" where
  "scan_file rt db_inventory dir f =
     (if startswith (basename (path f)) ''~$'' then None
      else
        (case content f of
           Inl e \<Rightarrow> None
         | Inr df \<Rightarrow>
             (let cols = map strip (df_columns df);
                  matches = length (filter (\<lambda>c. c \<in> set cols)
                                      [''Kode'', ''Nama Aset'', ''Serial Number'']) in
              if matches < 2 then None
              else
                (let (new, changed, excel_kodes) =
                       foldl (classify_row rt db_inventory cols) ([], [], []) (df_rows df);
                     missing = missing_of db_inventory excel_kodes in
                 if new \<noteq> [] \<or> changed \<noteq> [] \<or> missing \<noteq> [] then
                   Some \<lparr>file_path = path f, filename = basename (path f), directory = dir,
                         total_rows = length (df_rows df), new_rows = new,
                         changed_rows = changed, missing_rows = missing\<rparr>
                 else None))))"

definition detect :: "runtime \<Rightarrow> (sqlval \<times> row) list \<Rightarrow> dir_entry list \<Rightarrow> detected list" where
  "detect rt db_inventory directories =
     concat (map (\<lambda>d. if dir_exists d
                       then concat (map (\<lambda>f. case scan_file rt db_inventory (dir_path d) f of
                                                None \<Rightarrow> [] | Some r \<Rightarrow> [r])
                                      (dir_xlsx d))
                       else [])
               directories)"

text \<open>
  The three assignments that end the scan, as the list of the values \<open>SCAN_RESULTS\<close> takes
  one after the other.
\<close>

definition publish_steps :: "string \<Rightarrow> detected list \<Rightarrow> scan_results \<Rightarrow> scan_results list" where
  "publish_steps now detected_issues s0 =
     (let s1 = s0\<lparr>last_scan := Some now\<rparr>;
          s2 = s1\<lparr>detected_files := detected_issues\<rparr>;
          s3 = s2\<lparr>status := (if detected_issues \<noteq> [] then ''warning'' else ''ok'')\<rparr>
      in [s1, s2, s3])"

text \<open>
  \<open>scan_directory(directories)\<close>: the exception raised, if any, and \<open>SCAN_RESULTS\<close> after
  the call. \<open>AssetDatabase(DB_FILE)\<close> runs \<open>create_tables\<close> first; the scan then only reads
  the database.
\<close>

definition scan_directory ::
  "runtime \<Rightarrow> string \<Rightarrow> dir_entry list \<Rightarrow> db_file \<Rightarrow> scan_results \<Rightarrow> py_exn option \<times> scan_results" where
  "scan_directory rt now directories dbf results =
     (case load_inventory (create_tables dbf) of
        Inl e \<Rightarrow> (Some e, results)
      | Inr db_inventory \<Rightarrow>
          (None, last (publish_steps now (detect rt db_inventory directories) results)))"

text \<open>
  The code of a spreadsheet row as the scan reads it, and a spreadsheet that agrees with
  the loaded records: every row with a code has a record with that code and no compared
  field of it is flagged, and every loaded record has a row with its code.
\<close>

definition row_kode :: "runtime \<Rightarrow> string list \<Rightarrow> cell list \<Rightarrow> string" where
  "row_kode rt cols r = strip (cell_str rt (row_get_default cols r ''Kode''))"

definition in_sync :: "runtime \<Rightarrow> (sqlval \<times> row) list \<Rightarrow> dataframe \<Rightarrow> bool" where
  "in_sync rt db_inventory df =
     (let cols = map strip (df_columns df) in
      (\<forall>r \<in> set (df_rows df). row_kode rt cols r \<noteq> [] \<longrightarrow>
         (case map_of db_inventory (Text (row_kode rt cols r)) of
            None \<Rightarrow> False
          | Some db_row \<Rightarrow>
              (\<forall>(excel_col, db_col) \<in> set compare_fields.
                 \<not> field_changed rt (row_get cols r excel_col) (map_of db_row db_col))))
      \<and> (\<forall>(kode, db_row) \<in> set db_inventory.
            \<exists>r \<in> set (df_rows df). row_kode rt cols r \<noteq> [] \<and> kode = Text (row_kode rt cols r)))"

section \<open>Example stores\<close>


definition example_asset :: row where
  "example_asset =
     stored_row dim_assets_columns [(''nama_aset'', Text ''Laptop''), (''brand'', Text ''Acme'')]"

definition example_item :: "string \<Rightarrow> string \<Rightarrow> row" where
  "example_item kode serial =
     stored_row fact_inventory_columns
       [(''kode'', Text kode), (''serial_number'', Text serial), (''nama_aset'', Text ''Laptop''),
        (''quantity'', Integer 1), (''timestamp'', Text ''2024-01-01T00:00:00'')]"

definition store_with :: "row list \<Rightarrow> database" where
  "store_with items =
     \<lparr>dim_assets = \<lparr>t_columns = dim_assets_columns, t_rows = [example_asset]\<rparr>,
      fact_inventory = \<lparr>t_columns = fact_inventory_columns, t_rows = items\<rparr>\<rparr>"

text \<open>A filled-in dialog with the given base code, base serial number and quantity.\<close>

definition example_form :: "string \<Rightarrow> string \<Rightarrow> nat \<Rightarrow> form" where
  "example_form kode serial quantity =
     \<lparr>f_kode = kode, f_serial_number = serial, f_tanggal_po = ''2024-03-01'',
      f_layanan = ''Operation'', f_quantity = quantity, f_harga_pembelian = Finite 17700000,
      f_status = ''Existing'', f_sub_status = ''Active'', f_user = ''Budi'',
      f_lokasi_aset = ''Jakarta'', f_area = ''HO'', f_pemegang_aset = ''IT'', f_client = ''BTPN'',
      f_pemilik_asset = ''IT'', f_unit = ''IT'', f_pic = ''Sari'', f_penyedia_aset = ''Vendor'',
      f_kerahasiaan = Finite 3, f_integritas = Finite 3, f_ketersediaan = Finite 3,
      f_nilai = Finite 3, f_masa_berlaku = [], f_keterangan = []\<rparr>"

text \<open>
  A runtime to run the examples with: it rounds nothing and renders a float with an
  integral value as Python does. The examples use no other float.
\<close>

definition example_runtime :: runtime where
  "example_runtime =
     \<lparr>round_double = Finite, float_repr = (\<lambda>r. py_str_int \<lfloor>r\<rfloor> @ ''.0'')\<rparr>"


text \<open>
  A database file for the scan: its inventory table has the column \<open>is_deleted\<close> besides
  those of the schema, and holds one record, \<open>A001\<close>, with the given purchase price. A
  spreadsheet that agrees with it when the price is 17700000, one with a further row, and
  the directories \<open>.\<close> (holding one spreadsheet) and \<open>data\<close> (absent).
\<close>

definition example_scan_record :: "sqlval \<Rightarrow> row" where
  "example_scan_record harga =
     stored_row (fact_inventory_columns @ [''is_deleted''])
       [(''kode'', Text ''A001''), (''serial_number'', Text ''SN-100''),
        (''nama_aset'', Text ''Laptop''), (''harga_pembelian'', harga),
        (''is_deleted'', Integer 0)]"

definition example_scan_db :: "sqlval \<Rightarrow> db_file" where
  "example_scan_db harga =
     \<lparr>file_dim_assets = Some \<lparr>t_columns = dim_assets_columns, t_rows = [example_asset]\<rparr>,
      file_fact_inventory =
        Some \<lparr>t_columns = fact_inventory_columns @ [''is_deleted''],
              t_rows = [example_scan_record harga]\<rparr>\<rparr>"

definition example_synced_sheet :: dataframe where
  "example_synced_sheet =
     \<lparr>df_columns = [''Kode'', ''Nama Aset'', ''Serial Number'', ''Harga Pembelian''],
      df_rows = [[CStr ''A001'', CStr ''Laptop'', CStr ''SN-100'', CStr ''17700000.0'']]\<rparr>"


definition example_dirs :: "dataframe \<Rightarrow> dir_entry list" where
  "example_dirs sheet =
     [\<lparr>dir_path = ''.'', dir_exists = True,
       dir_xlsx = [\<lparr>path = ''./gabungan.xlsx'', content = Inr sheet\<rparr>]\<rparr>,
      \<lparr>dir_path = ''data'', dir_exists = False, dir_xlsx = []\<rparr>]"

text \<open>A result of an earlier scan that reported one file.\<close>

definition example_previous :: scan_results where
  "example_previous =
     \<lparr>detected_files =
        [\<lparr>file_path = ''./gabungan.xlsx'', filename = ''gabungan.xlsx'', directory = ''.'',
          total_rows = 2, new_rows = [[(''Kode'', ''A002'')]], changed_rows = [],
          missing_rows = []\<rparr>],
      last_scan = Some ''2024-03-01T10:00:00'', status = ''warning''\<rparr>"

section \<open>The identifier sequencer: proofs\<close>




















section \<open>The store: proofs\<close>

lemma map_of_cols: "map_of (map (\<lambda>c. (c, f c)) cols) k = (if k \<in> set cols then Some (f k) else None)"
  by (induction cols) auto

lemma dict_get_stored_row:
  "dict_get (stored_row cols named) k Null = (if k \<in> set cols then dict_get named k Null else Null)"
  by (simp add: stored_row_def dict_get_def map_of_cols)

lemma insert_inventory_values_columns:
  "map fst (insert_inventory_values now data) = fact_inventory_columns"
  by (simp add: insert_inventory_values_def fact_inventory_columns_def)

lemma insert_inventory_values_kode:
  "dict_get (insert_inventory_values now data) ''kode'' Null = dict_get data ''Kode'' Null"
  by (simp add: insert_inventory_values_def dict_get_def)

lemma insert_inventory_values_nama_aset:
  "dict_get (insert_inventory_values now data) ''nama_aset'' Null = dict_get data ''Nama Aset'' Null"
  by (simp add: insert_inventory_values_def dict_get_def)

lemma insert_inventory_values_timestamp:
  "dict_get (insert_inventory_values now data) ''timestamp'' Null = Text now"
  by (simp add: insert_inventory_values_def dict_get_def)

lemma insert_inventory_values_serial:
  "dict_get (insert_inventory_values now data) ''serial_number'' Null
     = dict_get data ''Serial Number'' Null"
  by (simp add: insert_inventory_values_def dict_get_def)


lemma fact_columns_mem:
  "''kode'' \<in> set fact_inventory_columns" "''nama_aset'' \<in> set fact_inventory_columns"
  "''timestamp'' \<in> set fact_inventory_columns" "''quantity'' \<in> set fact_inventory_columns"
  "''serial_number'' \<in> set fact_inventory_columns"
  by (simp_all add: fact_inventory_columns_def)

lemma sql_insert_fact_inventory:
  assumes "set (map fst named) \<subseteq> set (t_columns t)"
    and "''kode'' \<in> set (t_columns t)" and "''nama_aset'' \<in> set (t_columns t)"
  shows "sql_insert ''fact_inventory'' ''kode'' [''nama_aset''] or_ignore named t =
     (if dict_get named ''nama_aset'' Null = Null
      then (if or_ignore then Inr (0, t)
            else Inl (IntegrityError ''NOT NULL constraint failed: fact_inventory.nama_aset''))
      else if dict_get named ''kode'' Null \<noteq> Null
              \<and> (\<exists>r' \<in> set (t_rows t). dict_get r' ''kode'' Null = dict_get named ''kode'' Null)
      then (if or_ignore then Inr (0, t)
            else Inl (IntegrityError ''UNIQUE constraint failed: fact_inventory.kode''))
      else Inr (1, t\<lparr>t_rows := t_rows t @ [stored_row (t_columns t) named]\<rparr>))"
proof -
  from assms(1) have "filter (\<lambda>c. c \<notin> set (t_columns t)) (map fst named) = []"
    by (auto simp: filter_empty_conv)
  then show ?thesis
    using assms(2,3) by (simp add: sql_insert_def Let_def dict_get_stored_row)
qed

lemma kode_exists_iff:
  "kode_exists k db \<longleftrightarrow> (\<exists>r \<in> set (t_rows (fact_inventory db)). dict_get r ''kode'' Null = Text k)"
  by (auto simp: kode_exists_def select_where_def filter_empty_conv)

lemma insert_inventory_cases:
  assumes "set fact_inventory_columns \<subseteq> set (t_columns (fact_inventory db))"
  shows "insert_inventory now data db =
    (if dict_get data ''Nama Aset'' Null = Null
     then (Inl (IntegrityError ''NOT NULL constraint failed: fact_inventory.nama_aset''), db)
     else if dict_get data ''Kode'' Null \<noteq> Null
             \<and> (\<exists>r' \<in> set (t_rows (fact_inventory db)).
                   dict_get r' ''kode'' Null = dict_get data ''Kode'' Null)
     then (Inl (IntegrityError ''UNIQUE constraint failed: fact_inventory.kode''), db)
     else (Inr (),
           db\<lparr>fact_inventory := (fact_inventory db)
              \<lparr>t_rows := t_rows (fact_inventory db)
                 @ [stored_row (t_columns (fact_inventory db)) (insert_inventory_values now data)]\<rparr>\<rparr>))"
proof -
  have c: "set (map fst (insert_inventory_values now data)) \<subseteq> set (t_columns (fact_inventory db))"
    using assms by (simp add: insert_inventory_values_columns)
  have k: "''kode'' \<in> set (t_columns (fact_inventory db))"
    and n: "''nama_aset'' \<in> set (t_columns (fact_inventory db))"
    using assms fact_columns_mem by auto
  show ?thesis
    by (simp add: insert_inventory_def insert_fact_inventory_def get_connection_def close_def
        commit_def sql_insert_fact_inventory [OF c k n] insert_inventory_values_kode
        insert_inventory_values_nama_aset Let_def)
qed

lemma insert_inventory_text_kode:
  assumes "has_schema db" and "dict_get data ''Kode'' Null = Text k"
    and "dict_get data ''Nama Aset'' Null \<noteq> Null"
  shows "insert_inventory now data db =
    (if kode_exists k db
     then (Inl (IntegrityError ''UNIQUE constraint failed: fact_inventory.kode''), db)
     else (Inr (),
           db\<lparr>fact_inventory := (fact_inventory db)
              \<lparr>t_rows := t_rows (fact_inventory db)
                 @ [stored_row (t_columns (fact_inventory db)) (insert_inventory_values now data)]\<rparr>\<rparr>))"
  using assms by (simp add: insert_inventory_cases has_schema_def kode_exists_iff)

lemma insert_inventory_ignores_timestamp:
  "insert_inventory now ((''timestamp'', v) # data) db = insert_inventory now data db"
proof -
  have "insert_inventory_values now ((''timestamp'', v) # data) = insert_inventory_values now data"
    by (simp add: insert_inventory_values_def dict_get_def)
  then show ?thesis by (simp add: insert_inventory_def)
qed

lemma has_schema_store_with: "has_schema (store_with items)"
  by (simp add: has_schema_def store_with_def)

lemma example_item_kode: "dict_get (example_item k s) ''kode'' Null = Text k"
  by (simp add: example_item_def dict_get_stored_row fact_columns_mem) (simp add: dict_get_def)

lemma example_item_serial: "dict_get (example_item k s) ''serial_number'' Null = Text s"
  by (simp add: example_item_def dict_get_stored_row fact_columns_mem) (simp add: dict_get_def)

text \<open>
  C6. For a record with a code \<open>k\<close> and an asset name, on a store with the schema:
  \<open>insert_inventory\<close> fails if and only if a record with the code \<open>k\<close> exists, and then
  with the uniqueness error on \<open>fact_inventory.kode\<close> and without changing the store.
  Otherwise it appends one row, with the code, the serial number of the record and the
  time of the insert as timestamp; so an existing serial number alone does not make it
  fail. A \<open>timestamp\<close> entry of the record is not read.
\<close>

theorem insert_inventory_duplicate_key:
  assumes "has_schema db" and "dict_get data ''Kode'' Null = Text k"
    and "dict_get data ''Nama Aset'' Null \<noteq> Null"
  shows "((\<exists>e. fst (insert_inventory now data db) = Inl e) \<longleftrightarrow> kode_exists k db)
    \<and> (kode_exists k db \<longrightarrow>
         insert_inventory now data db =
           (Inl (IntegrityError ''UNIQUE constraint failed: fact_inventory.kode''), db))
    \<and> (\<not> kode_exists k db \<longrightarrow>
         (\<exists>r. insert_inventory now data db =
                (Inr (), db\<lparr>fact_inventory := (fact_inventory db)
                               \<lparr>t_rows := t_rows (fact_inventory db) @ [r]\<rparr>\<rparr>)
              \<and> dict_get r ''kode'' Null = Text k
              \<and> dict_get r ''serial_number'' Null = dict_get data ''Serial Number'' Null
              \<and> dict_get r ''timestamp'' Null = Text now))
    \<and> (serial_exists s db \<and> \<not> kode_exists k db \<longrightarrow> fst (insert_inventory now data db) = Inr ())
    \<and> insert_inventory now ((''timestamp'', v) # data) db = insert_inventory now data db"
proof -
  note ins = insert_inventory_text_kode [OF assms, of now]
  have mem: "''kode'' \<in> set (t_columns (fact_inventory db))"
    "''serial_number'' \<in> set (t_columns (fact_inventory db))"
    "''timestamp'' \<in> set (t_columns (fact_inventory db))"
    using assms(1) fact_columns_mem by (auto simp: has_schema_def)
  have a: "(\<exists>e. fst (insert_inventory now data db) = Inl e) \<longleftrightarrow> kode_exists k db"
    by (simp add: ins)
  have b: "kode_exists k db \<longrightarrow>
         insert_inventory now data db =
           (Inl (IntegrityError ''UNIQUE constraint failed: fact_inventory.kode''), db)"
    by (simp add: ins)
  have c: "\<not> kode_exists k db \<longrightarrow>
         (\<exists>r. insert_inventory now data db =
                (Inr (), db\<lparr>fact_inventory := (fact_inventory db)
                               \<lparr>t_rows := t_rows (fact_inventory db) @ [r]\<rparr>\<rparr>)
              \<and> dict_get r ''kode'' Null = Text k
              \<and> dict_get r ''serial_number'' Null = dict_get data ''Serial Number'' Null
              \<and> dict_get r ''timestamp'' Null = Text now)"
  proof
    assume "\<not> kode_exists k db"
    then have "insert_inventory now data db =
        (Inr (), db\<lparr>fact_inventory := (fact_inventory db)
           \<lparr>t_rows := t_rows (fact_inventory db)
              @ [stored_row (t_columns (fact_inventory db)) (insert_inventory_values now data)]\<rparr>\<rparr>)"
      by (simp add: ins)
    moreover have "dict_get (stored_row (t_columns (fact_inventory db))
        (insert_inventory_values now data)) ''kode'' Null = Text k"
      using mem assms(2) by (simp add: dict_get_stored_row insert_inventory_values_kode)
    moreover have "dict_get (stored_row (t_columns (fact_inventory db))
        (insert_inventory_values now data)) ''serial_number'' Null
          = dict_get data ''Serial Number'' Null"
      using mem by (simp add: dict_get_stored_row insert_inventory_values_serial)
    moreover have "dict_get (stored_row (t_columns (fact_inventory db))
        (insert_inventory_values now data)) ''timestamp'' Null = Text now"
      using mem by (simp add: dict_get_stored_row insert_inventory_values_timestamp)
    ultimately show "\<exists>r. insert_inventory now data db =
                (Inr (), db\<lparr>fact_inventory := (fact_inventory db)
                               \<lparr>t_rows := t_rows (fact_inventory db) @ [r]\<rparr>\<rparr>)
              \<and> dict_get r ''kode'' Null = Text k
              \<and> dict_get r ''serial_number'' Null = dict_get data ''Serial Number'' Null
              \<and> dict_get r ''timestamp'' Null = Text now"
      by blast
  qed
  have d: "serial_exists s db \<and> \<not> kode_exists k db \<longrightarrow> fst (insert_inventory now data db) = Inr ()"
    by (simp add: ins)
  show ?thesis using a b c d insert_inventory_ignores_timestamp by blast
qed

theorem insert_inventory_duplicate_key_witness:
  "kode_exists ''A001'' (store_with [example_item ''A001'' ''S1''])
   \<and> serial_exists ''S1'' (store_with [example_item ''A001'' ''S1''])
   \<and> insert_inventory ''2024-02-02T10:00:00''
        [(''timestamp'', Text ''1999-01-01''), (''Kode'', Text ''A001''), (''Serial Number'', Text ''S2''),
         (''Nama Aset'', Text ''Laptop'')]
        (store_with [example_item ''A001'' ''S1''])
      = (Inl (IntegrityError ''UNIQUE constraint failed: fact_inventory.kode''),
         store_with [example_item ''A001'' ''S1''])
   \<and> fst (insert_inventory ''2024-02-02T10:00:00''
        [(''timestamp'', Text ''1999-01-01''), (''Kode'', Text ''A002''), (''Serial Number'', Text ''S1''),
         (''Nama Aset'', Text ''Laptop'')]
        (store_with [example_item ''A001'' ''S1''])) = Inr ()"
proof -
  let ?db = "store_with [example_item ''A001'' ''S1'']"
  let ?d1 = "[(''Kode'', Text ''A001''), (''Serial Number'', Text ''S2''), (''Nama Aset'', Text ''Laptop'')]"
  let ?d2 = "[(''Kode'', Text ''A002''), (''Serial Number'', Text ''S1''), (''Nama Aset'', Text ''Laptop'')]"
  have s: "has_schema ?db" by (rule has_schema_store_with)
  have e1: "kode_exists ''A001'' ?db"
    by (simp add: kode_exists_iff store_with_def example_item_kode)
  have e2: "\<not> kode_exists ''A002'' ?db"
    by (simp add: kode_exists_iff store_with_def example_item_kode)
  have e3: "serial_exists ''S1'' ?db"
    by (simp add: serial_exists_def select_where_def store_with_def example_item_serial)
  have k1: "dict_get ?d1 ''Kode'' Null = Text ''A001''" by (simp add: dict_get_def)
  have n1: "dict_get ?d1 ''Nama Aset'' Null \<noteq> Null" by (simp add: dict_get_def)
  have k2: "dict_get ?d2 ''Kode'' Null = Text ''A002''" by (simp add: dict_get_def)
  have n2: "dict_get ?d2 ''Nama Aset'' Null \<noteq> Null" by (simp add: dict_get_def)
  from insert_inventory_duplicate_key [OF s k1 n1, of "''2024-02-02T10:00:00''" "''S1''" "Text ''1999-01-01''"] e1
  have r1: "insert_inventory ''2024-02-02T10:00:00'' ((''timestamp'', Text ''1999-01-01'') # ?d1) ?db
      = (Inl (IntegrityError ''UNIQUE constraint failed: fact_inventory.kode''), ?db)"
    by simp
  from insert_inventory_duplicate_key [OF s k2 n2, of "''2024-02-02T10:00:00''" "''S1''" "Text ''1999-01-01''"] e2 e3
  have r2: "fst (insert_inventory ''2024-02-02T10:00:00'' ((''timestamp'', Text ''1999-01-01'') # ?d2) ?db) = Inr ()"
    by simp
  from e1 e3 r1 r2 show ?thesis by simp
qed

section \<open>The bulk creation: proofs\<close>

lemma eval_entries_lookup:
  "eval_entries es = Inr d \<Longrightarrow> map_of es k = Some (Inr v) \<Longrightarrow> map_of d k = Some v"
  by (induction es arbitrary: d rule: eval_entries.induct) (auto split: sum.splits if_splits)

lemma eval_entries_total:
  "list_all (\<lambda>(k, x). \<exists>v. x = Inr v) es \<Longrightarrow> \<exists>d. eval_entries es = Inr d"
  by (induction es rule: eval_entries.induct) auto

lemma master_or_default_total:
  "master_complete master_asset \<Longrightarrow>
   mkey \<in> set [''brand'', ''sub_klasifikasi'', ''jenis_aset'', ''spesifikasi'', ''os_default''] \<Longrightarrow>
   \<exists>v. master_or_default template master_asset mkey key = Inr v"
  by (auto simp: master_complete_def master_or_default_def subscript_def split: option.splits)

lemma inventory_data_total:
  assumes "master_complete master_asset"
  shows "\<exists>d. inventory_data template master_asset sel f k s = Inr d"
  unfolding inventory_data_def
  by (rule eval_entries_total) (simp add: master_or_default_total [OF assms])

lemma inventory_data_fields:
  assumes "inventory_data template master_asset sel f k s = Inr d"
  shows "dict_get d ''Kode'' Null = Text k"
    and "dict_get d ''Serial Number'' Null = Text s"
    and "dict_get d ''Nama Aset'' Null = Text sel"
    and "dict_get d ''Quantity'' Null = Integer 1"
proof -
  note e = eval_entries_lookup [OF assms [unfolded inventory_data_def]]
  show "dict_get d ''Kode'' Null = Text k"
    using e [of "''Kode''" "Text k"] by (simp add: dict_get_def)
  show "dict_get d ''Serial Number'' Null = Text s"
    using e [of "''Serial Number''" "Text s"] by (simp add: dict_get_def)
  show "dict_get d ''Nama Aset'' Null = Text sel"
    using e [of "''Nama Aset''" "Text sel"] by (simp add: dict_get_def)
  show "dict_get d ''Quantity'' Null = Integer 1"
    using e [of "''Quantity''" "Integer 1"] by (simp add: dict_get_def)
qed

lemma sequence_code_simps:
  "sequence_code k 0 = k"
  "sequence_code (increment_string k 1) j = sequence_code k (Suc j)"
  using funpow_swap1 [of "\<lambda>s. increment_string s 1" j k]
  by (simp_all add: sequence_code_def)

lemma sequence_serial_simps:
  "sequence_serial s 0 = s"
  "sequence_serial (if s \<noteq> [] then increment_string s 1 else s) j = sequence_serial s (Suc j)"
  using funpow_swap1 [of "\<lambda>s. if s \<noteq> [] then increment_string s 1 else s" j s]
  by (simp_all add: sequence_serial_def)

lemma sequence_code_shift:
  "sequence_code (increment_string k 1) = (\<lambda>j. sequence_code k (Suc j))"
  by (rule ext) (simp add: sequence_code_simps)

lemma add_items_simps:
  "add_items [] db = db"
  "t_columns (fact_inventory (add_items rs db)) = t_columns (fact_inventory db)"
  "t_rows (fact_inventory (add_items rs db)) = t_rows (fact_inventory db) @ rs"
  "dim_assets (add_items rs db) = dim_assets db"
  "add_items rs (add_items rs' db) = add_items (rs' @ rs) db"
  "has_schema (add_items rs db) = has_schema db"
  by (simp_all add: add_items_def has_schema_def)

lemma insert_inventory_add_items:
  assumes "has_schema db" and "dict_get data ''Kode'' Null = Text k"
    and "dict_get data ''Nama Aset'' Null \<noteq> Null"
  shows "insert_inventory now data db =
    (if kode_exists k db
     then (Inl (IntegrityError ''UNIQUE constraint failed: fact_inventory.kode''), db)
     else (Inr (), add_items [stored_row (t_columns (fact_inventory db))
                                (insert_inventory_values now data)] db))"
  by (simp add: insert_inventory_text_kode [OF assms] add_items_def)

lemma kode_exists_add_items:
  "kode_exists k (add_items rs db) \<longleftrightarrow>
     kode_exists k db \<or> (\<exists>r \<in> set rs. dict_get r ''kode'' Null = Text k)"
  by (auto simp: kode_exists_iff add_items_simps)

lemma stored_row_kode:
  assumes "has_schema db" and "dict_get data ''Kode'' Null = Text k"
  shows "dict_get (stored_row (t_columns (fact_inventory db)) (insert_inventory_values now data))
           ''kode'' Null = Text k"
proof -
  have "''kode'' \<in> set (t_columns (fact_inventory db))"
    using assms(1) fact_columns_mem by (auto simp: has_schema_def)
  then show ?thesis by (simp add: dict_get_stored_row insert_inventory_values_kode assms(2))
qed

lemma bulk_loop_run:
  assumes mk: "\<And>k s. mk k s = Inr (dat k s)"
    and kd: "\<And>k s. dict_get (dat k s) ''Kode'' Null = Text k"
    and nm: "\<And>k s. dict_get (dat k s) ''Nama Aset'' Null \<noteq> Null"
  shows "has_schema db \<Longrightarrow>
     k0 = (if 0 < i then increment_string cur 1 else cur) \<Longrightarrow>
     s0 = (if 0 < i \<and> curs \<noteq> [] then increment_string curs 1 else curs) \<Longrightarrow>
     \<forall>j<n. \<not> kode_exists (sequence_code k0 j) db \<Longrightarrow>
     distinct (map (sequence_code k0) [0..<n]) \<Longrightarrow>
     bulk_loop clock mk i n cur curs created db =
       (Inr (created @ map (sequence_code k0) [0..<n]),
        add_items
          (map (\<lambda>j. stored_row (t_columns (fact_inventory db))
                      (insert_inventory_values (clock (i + j))
                         (dat (sequence_code k0 j) (sequence_serial s0 j))))
             [0..<n]) db)"
proof (induction n arbitrary: i cur curs created db k0 s0)
  case 0
  then show ?case by (simp add: add_items_simps)
next
  case (Suc n)
  let ?cols = "t_columns (fact_inventory db)"
  let ?row0 = "stored_row ?cols (insert_inventory_values (clock i) (dat k0 s0))"
  let ?db1 = "add_items [?row0] db"
  let ?k1 = "increment_string k0 1"
  let ?s1 = "if s0 \<noteq> [] then increment_string s0 1 else s0"
  from Suc.prems(4) have f0: "\<not> kode_exists k0 db"
    using sequence_code_simps(1) [of k0] by (metis zero_less_Suc)
  have ins: "insert_inventory (clock i) (dat k0 s0) db = (Inr (), ?db1)"
    using f0 by (simp add: insert_inventory_add_items [OF Suc.prems(1) kd nm])
  have sch: "has_schema ?db1" using Suc.prems(1) by (simp add: add_items_simps)
  have row0: "dict_get ?row0 ''kode'' Null = Text k0"
    by (rule stored_row_kode [OF Suc.prems(1) kd])
  have dist: "distinct (map (sequence_code k0) [0..<Suc n])" by (rule Suc.prems(5))
  then have "sequence_code k0 0 \<notin> set (map (\<lambda>j. sequence_code k0 (Suc j)) [0..<n])"
    unfolding map_upt_Suc by simp
  then have d0: "\<forall>j<n. sequence_code k0 (Suc j) \<noteq> k0"
    by (force simp: sequence_code_simps)
  have fresh1: "\<forall>j<n. \<not> kode_exists (sequence_code ?k1 j) ?db1"
    using Suc.prems(4) d0 by (auto simp: kode_exists_add_items sequence_code_simps row0)
  have dist1: "distinct (map (sequence_code ?k1) [0..<n])"
    using dist unfolding map_upt_Suc sequence_code_simps by simp
  have k1: "?k1 = (if 0 < Suc i then increment_string k0 1 else k0)" by simp
  have s1: "?s1 = (if 0 < Suc i \<and> s0 \<noteq> [] then increment_string s0 1 else s0)" by simp
  note IH = Suc.IH [OF sch k1 s1 fresh1 dist1, of "created @ [k0]"]
  have "bulk_loop clock mk i (Suc n) cur curs created db =
      (case mk k0 s0 of
         Inl e \<Rightarrow> (Inl e, db)
       | Inr data \<Rightarrow>
           (case insert_inventory (clock i) data db of
              (Inl e, db') \<Rightarrow> (Inl e, db')
            | (Inr u, db') \<Rightarrow> bulk_loop clock mk (Suc i) n k0 s0 (created @ [k0]) db'))"
    by (simp only: bulk_loop.simps Let_def Suc.prems(2) [symmetric] Suc.prems(3) [symmetric])
  then have step: "bulk_loop clock mk i (Suc n) cur curs created db =
      bulk_loop clock mk (Suc i) n k0 s0 (created @ [k0]) ?db1"
    by (simp add: mk ins)
  show ?case
    unfolding step IH
    by (simp only: map_upt_Suc sequence_code_simps sequence_code_shift sequence_serial_simps
        add_items_simps list.map append.simps append_assoc add_Suc_right add_Suc add_0_right
        prod.inject simp_thms)
qed

lemma bulk_loop_conflict:
  assumes mk: "\<And>k s. mk k s = Inr (dat k s)"
    and kd: "\<And>k s. dict_get (dat k s) ''Kode'' Null = Text k"
    and nm: "\<And>k s. dict_get (dat k s) ''Nama Aset'' Null \<noteq> Null"
  shows "has_schema db \<Longrightarrow>
     k0 = (if 0 < i then increment_string cur 1 else cur) \<Longrightarrow>
     s0 = (if 0 < i \<and> curs \<noteq> [] then increment_string curs 1 else curs) \<Longrightarrow>
     m < n \<Longrightarrow>
     \<forall>j<m. \<not> kode_exists (sequence_code k0 j) db \<Longrightarrow>
     distinct (map (sequence_code k0) [0..<m]) \<Longrightarrow>
     kode_exists (sequence_code k0 m) db
       \<or> sequence_code k0 m \<in> set (map (sequence_code k0) [0..<m]) \<Longrightarrow>
     bulk_loop clock mk i n cur curs created db =
       (Inl (IntegrityError ''UNIQUE constraint failed: fact_inventory.kode''),
        add_items
          (map (\<lambda>j. stored_row (t_columns (fact_inventory db))
                      (insert_inventory_values (clock (i + j))
                         (dat (sequence_code k0 j) (sequence_serial s0 j))))
             [0..<m]) db)"
proof (induction m arbitrary: n i cur curs created db k0 s0)
  case 0
  from 0(4) obtain n' where n: "n = Suc n'" by (cases n) auto
  from 0(7) have ex: "kode_exists k0 db" by (simp add: sequence_code_simps)
  have ins: "insert_inventory (clock i) (dat k0 s0) db =
      (Inl (IntegrityError ''UNIQUE constraint failed: fact_inventory.kode''), db)"
    using ex by (simp add: insert_inventory_add_items [OF 0(1) kd nm])
  have step: "bulk_loop clock mk i n cur curs created db =
      (case mk k0 s0 of
         Inl e \<Rightarrow> (Inl e, db)
       | Inr data \<Rightarrow>
           (case insert_inventory (clock i) data db of
              (Inl e, db') \<Rightarrow> (Inl e, db')
            | (Inr u, db') \<Rightarrow> bulk_loop clock mk (Suc i) n' k0 s0 (created @ [k0]) db'))"
    unfolding n
    by (simp only: bulk_loop.simps Let_def 0(2) [symmetric] 0(3) [symmetric])
  show ?case unfolding step by (simp add: mk ins add_items_simps)
next
  case (Suc m)
  from Suc.prems(4) obtain n' where n: "n = Suc n'" and mn: "m < n'" by (cases n) auto
  let ?cols = "t_columns (fact_inventory db)"
  let ?row0 = "stored_row ?cols (insert_inventory_values (clock i) (dat k0 s0))"
  let ?db1 = "add_items [?row0] db"
  let ?k1 = "increment_string k0 1"
  let ?s1 = "if s0 \<noteq> [] then increment_string s0 1 else s0"
  from Suc.prems(5) have f0: "\<not> kode_exists k0 db"
    using sequence_code_simps(1) [of k0] by (metis zero_less_Suc)
  have ins: "insert_inventory (clock i) (dat k0 s0) db = (Inr (), ?db1)"
    using f0 by (simp add: insert_inventory_add_items [OF Suc.prems(1) kd nm])
  have sch: "has_schema ?db1" using Suc.prems(1) by (simp add: add_items_simps)
  have row0: "dict_get ?row0 ''kode'' Null = Text k0"
    by (rule stored_row_kode [OF Suc.prems(1) kd])
  have dist: "distinct (map (sequence_code k0) [0..<Suc m])" by (rule Suc.prems(6))
  then have "sequence_code k0 0 \<notin> set (map (\<lambda>j. sequence_code k0 (Suc j)) [0..<m])"
    unfolding map_upt_Suc by simp
  then have d0: "\<forall>j<m. sequence_code k0 (Suc j) \<noteq> k0"
    by (force simp: sequence_code_simps)
  have fresh1: "\<forall>j<m. \<not> kode_exists (sequence_code ?k1 j) ?db1"
    using Suc.prems(5) d0 by (auto simp: kode_exists_add_items sequence_code_simps row0)
  have dist1: "distinct (map (sequence_code ?k1) [0..<m])"
    using dist unfolding map_upt_Suc sequence_code_simps by simp
  have conf1: "kode_exists (sequence_code ?k1 m) ?db1
      \<or> sequence_code ?k1 m \<in> set (map (sequence_code ?k1) [0..<m])"
    using Suc.prems(7) unfolding map_upt_Suc sequence_code_shift
    by (auto simp: kode_exists_add_items sequence_code_simps row0)
  have k1: "?k1 = (if 0 < Suc i then increment_string k0 1 else k0)" by simp
  have s1: "?s1 = (if 0 < Suc i \<and> s0 \<noteq> [] then increment_string s0 1 else s0)" by simp
  note IH = Suc.IH [OF sch k1 s1 mn fresh1 dist1 conf1, of "created @ [k0]"]
  have "bulk_loop clock mk i n cur curs created db =
      (case mk k0 s0 of
         Inl e \<Rightarrow> (Inl e, db)
       | Inr data \<Rightarrow>
           (case insert_inventory (clock i) data db of
              (Inl e, db') \<Rightarrow> (Inl e, db')
            | (Inr u, db') \<Rightarrow> bulk_loop clock mk (Suc i) n' k0 s0 (created @ [k0]) db'))"
    unfolding n
    by (simp only: bulk_loop.simps Let_def Suc.prems(2) [symmetric] Suc.prems(3) [symmetric])
  then have step: "bulk_loop clock mk i n cur curs created db =
      bulk_loop clock mk (Suc i) n' k0 s0 (created @ [k0]) ?db1"
    by (simp add: mk ins)
  show ?case
    unfolding step IH
    by (simp only: map_upt_Suc sequence_code_simps sequence_code_shift sequence_serial_simps
        add_items_simps list.map append.simps append_assoc add_Suc_right add_Suc add_0_right
        prod.inject simp_thms)
qed

lemma inventory_data_projr:
  assumes "master_complete master_asset"
  shows "inventory_data template master_asset sel f k s
           = Inr (projr (inventory_data template master_asset sel f k s))"
  using inventory_data_total [OF assms, of template sel f k s] by auto

lemma inventory_data_projr_fields:
  assumes "master_complete master_asset"
  shows "dict_get (projr (inventory_data template master_asset sel f k s)) ''Kode'' Null = Text k"
    and "dict_get (projr (inventory_data template master_asset sel f k s)) ''Serial Number'' Null
           = Text s"
    and "dict_get (projr (inventory_data template master_asset sel f k s)) ''Nama Aset'' Null
           \<noteq> Null"
    and "dict_get (projr (inventory_data template master_asset sel f k s)) ''Quantity'' Null
           = Integer 1"
  using inventory_data_fields [OF inventory_data_projr [OF assms, of template sel f k s]]
  by simp_all

lemma stored_row_serial:
  assumes "has_schema db"
  shows "dict_get (stored_row (t_columns (fact_inventory db)) (insert_inventory_values now data))
           ''serial_number'' Null = dict_get data ''Serial Number'' Null"
proof -
  have "''serial_number'' \<in> set (t_columns (fact_inventory db))"
    using assms fact_columns_mem by (auto simp: has_schema_def)
  then show ?thesis by (simp add: dict_get_stored_row insert_inventory_values_serial)
qed

lemma sequence_steps:
  "sequence_code b 0 = b"
  "sequence_code b (Suc j) = increment_string (sequence_code b j) 1"
  "sequence_serial s 0 = s"
  "sequence_serial s (Suc j) =
     (if sequence_serial s j \<noteq> [] then increment_string (sequence_serial s j) 1
      else sequence_serial s j)"
  by (simp_all add: sequence_code_def sequence_serial_def)

lemma sequence_code_A001:
  "map (sequence_code ''A001'') [0..<3] = [''A001'', ''A002'', ''A003'']"
  by code_simp

text \<open>
  C3. On a store with the schema, with a base code that is not empty, when the codes of
  the batch are distinct and none of them is in the store: the dialog reports success
  with exactly the codes of the batch in order, and the store gains one row per
  iteration, in order, row \<open>j\<close> carrying code \<open>j\<close> and serial number \<open>j\<close> of the batch.
  Code 0 and serial 0 are the base values; each later code is the sequencer applied to
  the code before, and each later serial the sequencer applied to the serial before when
  that one is not empty. For base code \<open>A001\<close> and quantity 3 the codes are \<open>A001\<close>, \<open>A002\<close>,
  \<open>A003\<close>.
\<close>

theorem bulk_creation_codes:
  assumes "has_schema db" and "master_complete master_asset" and "f_kode f \<noteq> []"
    and "0 < f_quantity f"
    and "\<forall>j<f_quantity f. \<not> kode_exists (sequence_code (f_kode f) j) db"
    and "distinct (map (sequence_code (f_kode f)) [0..<f_quantity f])"
  shows "(\<exists>rows.
            save_items clock template master_asset sel f db =
              (Success (f_quantity f) (map (sequence_code (f_kode f)) [0..<f_quantity f]),
               add_items rows db)
            \<and> length rows = f_quantity f
            \<and> (\<forall>j<f_quantity f.
                  dict_get (rows ! j) ''kode'' Null = Text (sequence_code (f_kode f) j)
                  \<and> dict_get (rows ! j) ''serial_number'' Null
                      = Text (sequence_serial (f_serial_number f) j)))
     \<and> sequence_code (f_kode f) 0 = f_kode f
     \<and> sequence_serial (f_serial_number f) 0 = f_serial_number f
     \<and> (\<forall>j. sequence_code (f_kode f) (Suc j) = increment_string (sequence_code (f_kode f) j) 1)
     \<and> (\<forall>j. sequence_serial (f_serial_number f) (Suc j) =
              (if sequence_serial (f_serial_number f) j \<noteq> []
               then increment_string (sequence_serial (f_serial_number f) j) 1
               else sequence_serial (f_serial_number f) j))
     \<and> (f_kode f = ''A001'' \<and> f_quantity f = 3 \<longrightarrow>
          fst (save_items clock template master_asset sel f db)
            = Success 3 [''A001'', ''A002'', ''A003''])"
proof -
  let ?mk = "inventory_data template master_asset sel f"
  let ?dat = "\<lambda>k s. projr (?mk k s)"
  let ?n = "f_quantity f"
  let ?rows = "map (\<lambda>j. stored_row (t_columns (fact_inventory db))
                      (insert_inventory_values (clock (0 + j))
                         (?dat (sequence_code (f_kode f) j)
                               (sequence_serial (f_serial_number f) j))))
                 [0..<?n]"
  from assms(4,5) have base: "\<not> kode_exists (f_kode f) db"
    using sequence_steps(1) [of "f_kode f"] by metis
  have loop: "bulk_loop clock ?mk 0 ?n (f_kode f) (f_serial_number f) [] db =
      (Inr ([] @ map (sequence_code (f_kode f)) [0..<?n]), add_items ?rows db)"
    by (rule bulk_loop_run [where dat = ?dat, OF inventory_data_projr [OF assms(2)]
          inventory_data_projr_fields(1) [OF assms(2)]
          inventory_data_projr_fields(3) [OF assms(2)] assms(1) _ _ assms(5) assms(6)])
       simp_all
  have run: "save_items clock template master_asset sel f db =
      (Success ?n (map (sequence_code (f_kode f)) [0..<?n]), add_items ?rows db)"
    using assms(3) base by (simp add: save_items_def loop)
  have len: "length ?rows = ?n" by simp
  have fields: "\<forall>j<?n.
      dict_get (?rows ! j) ''kode'' Null = Text (sequence_code (f_kode f) j)
      \<and> dict_get (?rows ! j) ''serial_number'' Null
          = Text (sequence_serial (f_serial_number f) j)"
    by (simp add: stored_row_kode [OF assms(1) inventory_data_projr_fields(1) [OF assms(2)]]
        stored_row_serial [OF assms(1)] inventory_data_projr_fields(2) [OF assms(2)])
  have ex: "f_kode f = ''A001'' \<and> f_quantity f = 3 \<longrightarrow>
      fst (save_items clock template master_asset sel f db) = Success 3 [''A001'', ''A002'', ''A003'']"
    using run sequence_code_A001 by auto
  from run len fields ex show ?thesis
    by (intro conjI exI [of _ ?rows]) (simp_all add: sequence_steps)
qed

lemma master_complete_example: "master_complete (Some example_asset)"
  by (simp add: master_complete_def example_asset_def stored_row_def dim_assets_columns_def)

lemma example_form_simps:
  "f_kode (example_form k s n) = k"
  "f_serial_number (example_form k s n) = s"
  "f_quantity (example_form k s n) = n"
  by (simp_all add: example_form_def)

lemma kode_exists_store_with:
  "kode_exists k (store_with [example_item c s]) \<longleftrightarrow> k = c"
  by (auto simp: kode_exists_iff store_with_def example_item_kode)

lemma sequence_code_A001_values:
  "sequence_code ''A001'' 0 = ''A001''"
  "sequence_code ''A001'' (Suc 0) = ''A002''"
  "sequence_code ''A001'' (Suc (Suc 0)) = ''A003''"
  by code_simp+

lemma all_less_3: "(\<forall>j<3. P j) \<longleftrightarrow> P 0 \<and> P (Suc 0) \<and> P (Suc (Suc 0))"
  by (auto simp: less_Suc_eq numeral_3_eq_3)

theorem bulk_creation_codes_witness:
  "fst (save_items (\<lambda>i. ''2024-03-01T09:00:00'') None (Some example_asset) ''Laptop''
          (example_form ''A001'' ''SN-100'' 3) (store_with [example_item ''B001'' ''SN-001'']))
     = Success 3 [''A001'', ''A002'', ''A003'']"
proof -
  let ?db = "store_with [example_item ''B001'' ''SN-001'']"
  let ?f = "example_form ''A001'' ''SN-100'' 3"
  have h1: "has_schema ?db" by (rule has_schema_store_with)
  have h3: "f_kode ?f \<noteq> []" by (simp add: example_form_simps)
  have h4: "0 < f_quantity ?f" by (simp add: example_form_simps)
  have h5: "\<forall>j<f_quantity ?f. \<not> kode_exists (sequence_code (f_kode ?f) j) ?db"
    by (simp add: example_form_simps all_less_3 kode_exists_store_with
        sequence_code_A001_values)
  have h6: "distinct (map (sequence_code (f_kode ?f)) [0..<f_quantity ?f])"
    by (simp add: example_form_simps sequence_code_A001)
  from bulk_creation_codes [OF h1 master_complete_example h3 h4 h5 h6,
      of "\<lambda>i. ''2024-03-01T09:00:00''" None "''Laptop''"]
  show ?thesis by (simp add: example_form_simps)
qed

text \<open>
  C4, as amended. On a store with the schema, when the first \<open>m\<close> codes of the batch
  (\<open>0 < m\<close>, \<open>m\<close> below the quantity) are distinct and not in the store and code \<open>m\<close> is in
  the store or among them: the rows of the \<open>m\<close> first iterations are in the store the
  dialog leaves, no other row is added, and the dialog shows the exception of the failed
  insert, the uniqueness error on \<open>fact_inventory.kode\<close>, whose text holds neither the
  number of records created nor the failing code.
\<close>

theorem bulk_creation_conflict:
  assumes "has_schema db" and "master_complete master_asset" and "f_kode f \<noteq> []"
    and "0 < m" and "m < f_quantity f"
    and "\<forall>j<m. \<not> kode_exists (sequence_code (f_kode f) j) db"
    and "distinct (map (sequence_code (f_kode f)) [0..<m])"
    and "kode_exists (sequence_code (f_kode f) m) db
         \<or> sequence_code (f_kode f) m \<in> set (map (sequence_code (f_kode f)) [0..<m])"
  shows "\<exists>rows.
            save_items clock template master_asset sel f db =
              (Error_shown (IntegrityError ''UNIQUE constraint failed: fact_inventory.kode''),
               add_items rows db)
            \<and> length rows = m
            \<and> (\<forall>j<m. dict_get (rows ! j) ''kode'' Null = Text (sequence_code (f_kode f) j))"
proof -
  let ?mk = "inventory_data template master_asset sel f"
  let ?dat = "\<lambda>k s. projr (?mk k s)"
  let ?rows = "map (\<lambda>j. stored_row (t_columns (fact_inventory db))
                      (insert_inventory_values (clock (0 + j))
                         (?dat (sequence_code (f_kode f) j)
                               (sequence_serial (f_serial_number f) j))))
                 [0..<m]"
  from assms(4,6) have base: "\<not> kode_exists (f_kode f) db"
    using sequence_steps(1) [of "f_kode f"] by metis
  have loop: "bulk_loop clock ?mk 0 (f_quantity f) (f_kode f) (f_serial_number f) [] db =
      (Inl (IntegrityError ''UNIQUE constraint failed: fact_inventory.kode''),
       add_items ?rows db)"
    by (rule bulk_loop_conflict [where dat = ?dat, OF inventory_data_projr [OF assms(2)]
          inventory_data_projr_fields(1) [OF assms(2)]
          inventory_data_projr_fields(3) [OF assms(2)] assms(1) _ _ assms(5) assms(6)
          assms(7) assms(8)])
       simp_all
  have run: "save_items clock template master_asset sel f db =
      (Error_shown (IntegrityError ''UNIQUE constraint failed: fact_inventory.kode''),
       add_items ?rows db)"
    using assms(3) base by (simp add: save_items_def loop)
  have len: "length ?rows = m" by simp
  have fields: "\<forall>j<m. dict_get (?rows ! j) ''kode'' Null = Text (sequence_code (f_kode f) j)"
    by (simp add: stored_row_kode [OF assms(1) inventory_data_projr_fields(1) [OF assms(2)]])
  from run len fields show ?thesis by blast
qed

theorem bulk_creation_conflict_witness:
  "\<exists>rows.
     save_items (\<lambda>i. ''2024-03-01T09:00:00'') None (Some example_asset) ''Laptop''
        (example_form ''A001'' ''SN-100'' 3) (store_with [example_item ''A002'' ''SN-001''])
       = (Error_shown (IntegrityError ''UNIQUE constraint failed: fact_inventory.kode''),
          add_items rows (store_with [example_item ''A002'' ''SN-001'']))
     \<and> length rows = 1
     \<and> dict_get (rows ! 0) ''kode'' Null = Text ''A001''"
proof -
  let ?db = "store_with [example_item ''A002'' ''SN-001'']"
  let ?f = "example_form ''A001'' ''SN-100'' 3"
  have h1: "has_schema ?db" by (rule has_schema_store_with)
  have h3: "f_kode ?f \<noteq> []" by (simp add: example_form_simps)
  have h4: "(0::nat) < 1" by simp
  have h5: "1 < f_quantity ?f" by (simp add: example_form_simps)
  have h6: "\<forall>j<1. \<not> kode_exists (sequence_code (f_kode ?f) j) ?db"
    by (simp add: example_form_simps kode_exists_store_with sequence_code_A001_values)
  have h7: "distinct (map (sequence_code (f_kode ?f)) [0..<1])" by simp
  have h8: "kode_exists (sequence_code (f_kode ?f) 1) ?db
         \<or> sequence_code (f_kode ?f) 1 \<in> set (map (sequence_code (f_kode ?f)) [0..<1])"
    by (simp add: example_form_simps kode_exists_store_with sequence_code_A001_values)
  from bulk_creation_conflict [OF h1 master_complete_example h3 h4 h5 h6 h7 h8,
      of "\<lambda>i. ''2024-03-01T09:00:00''" None "''Laptop''"]
  show ?thesis by (simp add: example_form_simps sequence_code_A001_values)
qed

lemma save_items_loop:
  "f_kode f \<noteq> [] \<Longrightarrow> \<not> kode_exists (f_kode f) db \<Longrightarrow>
   save_items clock template master_asset sel f db =
     (case bulk_loop clock (inventory_data template master_asset sel f) 0 (f_quantity f)
             (f_kode f) (f_serial_number f) [] db of
        (Inl e, db') \<Rightarrow> (Error_shown e, db')
      | (Inr created_kodes, db') \<Rightarrow> (Success (f_quantity f) created_kodes, db'))"
  by (simp add: save_items_def)

lemma sequence_code_B001_values:
  "sequence_code ''B001'' 0 = ''B001''"
  "sequence_code ''B001'' (Suc 0) = ''B002''"
  "sequence_code ''B001'' (Suc (Suc 0)) = ''B003''"
  by code_simp+

lemma example_conflict_run:
  assumes "m < 3"
    and "\<forall>j<m. sequence_code k j \<noteq> c"
    and "distinct (map (sequence_code k) [0..<m])"
    and "sequence_code k m = c" and "k \<noteq> []" and "k \<noteq> c"
  shows "\<exists>rows.
     save_items clock None (Some example_asset) ''Laptop'' (example_form k s 3)
        (store_with [example_item c t])
       = (Error_shown (IntegrityError ''UNIQUE constraint failed: fact_inventory.kode''),
          add_items rows (store_with [example_item c t]))
     \<and> length rows = m"
proof -
  let ?db = "store_with [example_item c t]"
  let ?f = "example_form k s 3"
  let ?mk = "inventory_data None (Some example_asset) ''Laptop'' ?f"
  let ?dat = "\<lambda>k s. projr (?mk k s)"
  let ?rows = "map (\<lambda>j. stored_row (t_columns (fact_inventory ?db))
                      (insert_inventory_values (clock (0 + j))
                         (?dat (sequence_code k j) (sequence_serial s j))))
                 [0..<m]"
  have fresh: "\<forall>j<m. \<not> kode_exists (sequence_code k j) ?db"
    using assms(2) by (simp add: kode_exists_store_with)
  have conf: "kode_exists (sequence_code k m) ?db
      \<or> sequence_code k m \<in> set (map (sequence_code k) [0..<m])"
    using assms(4) by (simp add: kode_exists_store_with)
  have loop: "bulk_loop clock ?mk 0 3 k s [] ?db =
      (Inl (IntegrityError ''UNIQUE constraint failed: fact_inventory.kode''),
       add_items ?rows ?db)"
    by (rule bulk_loop_conflict [where dat = ?dat,
          OF inventory_data_projr [OF master_complete_example]
          inventory_data_projr_fields(1) [OF master_complete_example]
          inventory_data_projr_fields(3) [OF master_complete_example]
          has_schema_store_with _ _ assms(1) fresh assms(3) conf])
       simp_all
  have "save_items clock None (Some example_asset) ''Laptop'' ?f ?db =
      (Error_shown (IntegrityError ''UNIQUE constraint failed: fact_inventory.kode''),
       add_items ?rows ?db)"
    using assms(5,6)
    by (simp add: save_items_loop example_form_simps kode_exists_store_with loop)
  moreover have "length ?rows = m" by simp
  ultimately show ?thesis by blast
qed

text \<open>
  Against C4 as stated: two batches that fail at different codes (\<open>A002\<close>, \<open>B003\<close>) after
  different numbers of created records (1, 2) show the same thing, so what is shown tells
  neither the partial count nor the failing code.
\<close>

theorem bulk_creation_report_counterexample:
  "fst (save_items (\<lambda>i. ''2024-03-01T09:00:00'') None (Some example_asset) ''Laptop''
          (example_form ''A001'' ''SN-100'' 3) (store_with [example_item ''A002'' ''SN-001'']))
     = fst (save_items (\<lambda>i. ''2024-03-01T09:00:00'') None (Some example_asset) ''Laptop''
              (example_form ''B001'' ''SN-100'' 3) (store_with [example_item ''B003'' ''SN-001'']))
   \<and> length (t_rows (fact_inventory (snd
        (save_items (\<lambda>i. ''2024-03-01T09:00:00'') None (Some example_asset) ''Laptop''
           (example_form ''A001'' ''SN-100'' 3) (store_with [example_item ''A002'' ''SN-001'']))))) = 1 + 1
   \<and> length (t_rows (fact_inventory (snd
        (save_items (\<lambda>i. ''2024-03-01T09:00:00'') None (Some example_asset) ''Laptop''
           (example_form ''B001'' ''SN-100'' 3) (store_with [example_item ''B003'' ''SN-001'']))))) = 1 + 2"
proof -
  have a: "\<exists>rows.
     save_items (\<lambda>i. ''2024-03-01T09:00:00'') None (Some example_asset) ''Laptop''
        (example_form ''A001'' ''SN-100'' 3) (store_with [example_item ''A002'' ''SN-001''])
       = (Error_shown (IntegrityError ''UNIQUE constraint failed: fact_inventory.kode''),
          add_items rows (store_with [example_item ''A002'' ''SN-001'']))
     \<and> length rows = 1"
    by (rule example_conflict_run) (simp_all add: sequence_code_A001_values)
  have b: "\<exists>rows.
     save_items (\<lambda>i. ''2024-03-01T09:00:00'') None (Some example_asset) ''Laptop''
        (example_form ''B001'' ''SN-100'' 3) (store_with [example_item ''B003'' ''SN-001''])
       = (Error_shown (IntegrityError ''UNIQUE constraint failed: fact_inventory.kode''),
          add_items rows (store_with [example_item ''B003'' ''SN-001'']))
     \<and> length rows = 2"
    by (rule example_conflict_run)
       (simp_all add: sequence_code_B001_values less_Suc_eq numeral_2_eq_2)
  from a b show ?thesis
    by (auto simp: add_items_simps store_with_def)
qed

section \<open>The stored quantity: proofs\<close>



















section \<open>The latest item: proofs\<close>

lemma order_desc_first_None: "order_desc_first col rs = None \<longleftrightarrow> rs = []"
proof (cases "rev (sort_key (\<lambda>r. sql_key (dict_get r col Null)) rs)")
  case Nil
  then have "length (sort_key (\<lambda>r. sql_key (dict_get r col Null)) rs) = 0" by simp
  then have "length rs = 0" by (simp only: length_sort)
  then have "rs = []" by simp
  with Nil show ?thesis by (simp add: order_desc_first_def)
next
  case (Cons r rest)
  then have "rs \<noteq> []" by auto
  with Cons show ?thesis by (simp add: order_desc_first_def)
qed

lemma order_desc_first_Some:
  assumes "order_desc_first col rs = Some r"
  shows "r \<in> set rs"
    and "\<forall>r' \<in> set rs. sql_key (dict_get r' col Null) \<le> sql_key (dict_get r col Null)"
proof -
  let ?f = "\<lambda>r. sql_key (dict_get r col Null)"
  from assms obtain rest where "rev (sort_key ?f rs) = r # rest"
    by (auto simp: order_desc_first_def split: list.splits)
  then have s: "sort_key ?f rs = rev rest @ [r]" by (simp add: rev_swap)
  have "set (sort_key ?f rs) = set rs" by simp
  with s show "r \<in> set rs" by auto
  have "sorted (map ?f (sort_key ?f rs))" by (rule sorted_sort_key)
  with s have "\<forall>x \<in> set (rev rest @ [r]). ?f x \<le> ?f r"
    by (auto simp: sorted_append)
  with s \<open>set (sort_key ?f rs) = set rs\<close> show "\<forall>r' \<in> set rs. ?f r' \<le> ?f r" by metis
qed

lemma sql_key_text_le:
  "sql_key (Text k') \<le> sql_key v \<longleftrightarrow> (\<exists>k. v = Text k \<and> k' \<le> k)"
  by (cases v) auto

text \<open>
  C8. \<open>get_latest_item\<close> returns nothing exactly when the store has no record of the
  asset. Otherwise it returns a record of the asset whose code is the greatest: every
  code of a record of the asset is lexicographically at most the code returned. With the
  codes \<open>0124\<close> and \<open>0224\<close> of one asset, in either order of insertion, the record with
  \<open>0224\<close> is returned.
\<close>

theorem get_latest_item_max:
  "(get_latest_item name db = None \<longleftrightarrow>
      (\<forall>r \<in> set (t_rows (fact_inventory db)). dict_get r ''nama_aset'' Null \<noteq> Text name))
   \<and> (get_latest_item name db = Some r \<longrightarrow>
        r \<in> set (t_rows (fact_inventory db)) \<and> dict_get r ''nama_aset'' Null = Text name
        \<and> (\<forall>r' \<in> set (t_rows (fact_inventory db)).
              dict_get r' ''nama_aset'' Null = Text name \<longrightarrow>
              (\<forall>k'. dict_get r' ''kode'' Null = Text k' \<longrightarrow>
                 (\<exists>k. dict_get r ''kode'' Null = Text k \<and> k' \<le> k))))
   \<and> get_latest_item ''Laptop''
        (store_with [example_item ''0124'' ''SN-1'', example_item ''0224'' ''SN-2''])
       = Some (example_item ''0224'' ''SN-2'')
   \<and> get_latest_item ''Laptop''
        (store_with [example_item ''0224'' ''SN-2'', example_item ''0124'' ''SN-1''])
       = Some (example_item ''0224'' ''SN-2'')"
proof -
  let ?rs = "select_where ''nama_aset'' name (fact_inventory db)"
  have sel: "set ?rs = {r \<in> set (t_rows (fact_inventory db)).
      dict_get r ''nama_aset'' Null = Text name}"
    by (auto simp: select_where_def)
  have a: "get_latest_item name db = None \<longleftrightarrow>
      (\<forall>r \<in> set (t_rows (fact_inventory db)). dict_get r ''nama_aset'' Null \<noteq> Text name)"
    by (auto simp: get_latest_item_def order_desc_first_None select_where_def filter_empty_conv)
  have b: "get_latest_item name db = Some r \<longrightarrow>
        r \<in> set (t_rows (fact_inventory db)) \<and> dict_get r ''nama_aset'' Null = Text name
        \<and> (\<forall>r' \<in> set (t_rows (fact_inventory db)).
              dict_get r' ''nama_aset'' Null = Text name \<longrightarrow>
              (\<forall>k'. dict_get r' ''kode'' Null = Text k' \<longrightarrow>
                 (\<exists>k. dict_get r ''kode'' Null = Text k \<and> k' \<le> k)))"
  proof
    assume "get_latest_item name db = Some r"
    then have o: "order_desc_first ''kode'' ?rs = Some r" by (simp add: get_latest_item_def)
    from order_desc_first_Some(1) [OF o] sel
    have m: "r \<in> set (t_rows (fact_inventory db)) \<and> dict_get r ''nama_aset'' Null = Text name"
      by auto
    have "\<forall>r' \<in> set (t_rows (fact_inventory db)).
              dict_get r' ''nama_aset'' Null = Text name \<longrightarrow>
              (\<forall>k'. dict_get r' ''kode'' Null = Text k' \<longrightarrow>
                 (\<exists>k. dict_get r ''kode'' Null = Text k \<and> k' \<le> k))"
    proof (intro ballI impI allI)
      fix r' k'
      assume "r' \<in> set (t_rows (fact_inventory db))"
        and "dict_get r' ''nama_aset'' Null = Text name"
        and k': "dict_get r' ''kode'' Null = Text k'"
      then have "r' \<in> set ?rs" using sel by auto
      with order_desc_first_Some(2) [OF o]
      have "sql_key (dict_get r' ''kode'' Null) \<le> sql_key (dict_get r ''kode'' Null)" by blast
      then show "\<exists>k. dict_get r ''kode'' Null = Text k \<and> k' \<le> k"
        unfolding k' sql_key_text_le .
    qed
    with m show "r \<in> set (t_rows (fact_inventory db)) \<and> dict_get r ''nama_aset'' Null = Text name
        \<and> (\<forall>r' \<in> set (t_rows (fact_inventory db)).
              dict_get r' ''nama_aset'' Null = Text name \<longrightarrow>
              (\<forall>k'. dict_get r' ''kode'' Null = Text k' \<longrightarrow>
                 (\<exists>k. dict_get r ''kode'' Null = Text k \<and> k' \<le> k)))"
      by blast
  qed
  have c: "get_latest_item ''Laptop''
        (store_with [example_item ''0124'' ''SN-1'', example_item ''0224'' ''SN-2''])
       = Some (example_item ''0224'' ''SN-2'')"
    by code_simp
  have d: "get_latest_item ''Laptop''
        (store_with [example_item ''0224'' ''SN-2'', example_item ''0124'' ''SN-1''])
       = Some (example_item ''0224'' ''SN-2'')"
    by code_simp
  from a b c d show ?thesis by (intro conjI)
qed

theorem get_latest_item_max_witness:
  "get_latest_item ''Laptop''
     (store_with [example_item ''0124'' ''SN-1'', example_item ''0224'' ''SN-2''])
     = Some (example_item ''0224'' ''SN-2'')
   \<and> (''0124''::string) \<le> ''0224''
   \<and> get_latest_item ''Printer''
       (store_with [example_item ''0124'' ''SN-1'', example_item ''0224'' ''SN-2'']) = None"
proof -
  let ?db = "store_with [example_item ''0124'' ''SN-1'', example_item ''0224'' ''SN-2'']"
  have n: "\<forall>r \<in> set (t_rows (fact_inventory ?db)). dict_get r ''nama_aset'' Null \<noteq> Text ''Printer''"
    by (simp add: store_with_def example_item_def dict_get_stored_row fact_columns_mem)
       (simp add: dict_get_def)
  have m: "example_item ''0124'' ''SN-1'' \<in> set (t_rows (fact_inventory ?db))"
    by (simp add: store_with_def)
  have na: "dict_get (example_item ''0124'' ''SN-1'') ''nama_aset'' Null = Text ''Laptop''"
    by (simp add: example_item_def dict_get_stored_row fact_columns_mem) (simp add: dict_get_def)
  note t1 = get_latest_item_max [of "''Laptop''" ?db "example_item ''0224'' ''SN-2''"]
  note t2 = get_latest_item_max [of "''Printer''" ?db "example_item ''0224'' ''SN-2''"]
  from t1 have g: "get_latest_item ''Laptop'' ?db = Some (example_item ''0224'' ''SN-2'')"
    by blast
  with t1 m na example_item_kode [of "''0124''" "''SN-1''"]
  have "\<exists>k. dict_get (example_item ''0224'' ''SN-2'') ''kode'' Null = Text k \<and> ''0124'' \<le> k"
    by blast
  then have le: "(''0124''::string) \<le> ''0224''" by (simp add: example_item_kode)
  from t2 n have "get_latest_item ''Printer'' ?db = None" by blast
  with g le show ?thesis by simp
qed

section \<open>The combined upsert: proofs\<close>

lemma map_of_dict_set:
  "map_of (dict_set d k v) k' = (if k' = k then Some v else map_of d k')"
  by (induction d) auto

lemma dict_get_dict_set:
  "dict_get (dict_set d k v) k' x = (if k' = k then v else dict_get d k' x)"
  by (simp add: dict_get_def map_of_dict_set)

lemma fill_fold_other:
  "k' \<notin> set keys \<Longrightarrow>
   dict_get (foldl (\<lambda>d key.
                 if map_of d key = None \<or> \<not> truthy (dict_get d key Null)
                 then dict_set d key (dict_get existing key (Text []))
                 else d) d0 keys) k' x = dict_get d0 k' x"
  by (induction keys arbitrary: d0) (auto simp: dict_get_dict_set)

lemma fill_from_existing_other:
  assumes "k' \<notin> set [''brand'', ''sub_klasifikasi'', ''jenis_aset'', ''spesifikasi'']"
    and "k' \<noteq> ''os''"
  shows "dict_get (fill_from_existing existing inv_data) k' x = dict_get inv_data k' x"
proof -
  define filled where "filled =
     foldl (\<lambda>d key.
                 if map_of d key = None \<or> \<not> truthy (dict_get d key Null)
                 then dict_set d key (dict_get existing key (Text []))
                 else d)
          inv_data [''brand'', ''sub_klasifikasi'', ''jenis_aset'', ''spesifikasi'']"
  have f: "dict_get filled k' x = dict_get inv_data k' x"
    unfolding filled_def by (rule fill_fold_other [OF assms(1)])
  have "fill_from_existing existing inv_data =
      (if map_of filled ''os'' = None \<or> \<not> truthy (dict_get filled ''os'' Null)
       then dict_set filled ''os'' (dict_get existing ''os_default'' (Text []))
       else filled)"
    unfolding fill_from_existing_def filled_def Let_def ..
  then show ?thesis using assms(2) by (simp add: dict_get_dict_set f)
qed

lemma fill_from_existing_kode:
  "dict_get (fill_from_existing existing inv_data) ''kode'' Null
     = dict_get inv_data ''kode'' Null"
  by (rule fill_from_existing_other) simp_all

lemma fill_from_existing_nama_aset:
  "dict_get (fill_from_existing existing inv_data) ''nama_aset'' Null
     = dict_get inv_data ''nama_aset'' Null"
  by (rule fill_from_existing_other) simp_all

lemma upsert_inventory_values_kode:
  "dict_get (upsert_inventory_values now inv_data) ''kode'' Null
     = dict_get inv_data ''kode'' Null"
  by (simp add: upsert_inventory_values_def dict_get_def)

lemma upsert_inventory_values_nama_aset:
  "dict_get (upsert_inventory_values now inv_data) ''nama_aset'' Null
     = dict_get inv_data ''nama_aset'' Null"
  by (simp add: upsert_inventory_values_def dict_get_def)

lemma upsert_inventory_values_columns:
  "map fst (upsert_inventory_values now inv_data) = fact_inventory_columns"
  by (simp add: upsert_inventory_values_def fact_inventory_columns_def)

lemma sql_insert_strict_result:
  assumes "sql_insert name pk notnull False named t = Inr (n, t')"
  shows "t' = t\<lparr>t_rows := t_rows t @ [stored_row (t_columns t) named]\<rparr>"
    and "set (map fst named) \<subseteq> set (t_columns t)"
proof -
  from assms have f: "filter (\<lambda>c. c \<notin> set (t_columns t)) (map fst named) = []"
    by (auto simp: sql_insert_def split: list.splits)
  then show "set (map fst named) \<subseteq> set (t_columns t)" by (auto simp: filter_empty_conv)
  from assms f show "t' = t\<lparr>t_rows := t_rows t @ [stored_row (t_columns t) named]\<rparr>"
    by (auto simp: sql_insert_def Let_def split: list.splits if_splits)
qed

lemma sql_insert_duplicate:
  assumes "dict_get named pk Null \<noteq> Null"
    and "\<exists>r \<in> set (t_rows t). dict_get r pk Null = dict_get named pk Null"
  shows "\<exists>e. sql_insert name pk notnull False named t = Inl e"
proof (cases "filter (\<lambda>c. c \<notin> set (t_columns t)) (map fst named)")
  case (Cons c cs)
  then show ?thesis by (simp add: sql_insert_def)
next
  case Nil
  from assms(1) have "map_of named pk \<noteq> None" by (auto simp: dict_get_def split: option.splits)
  then have "pk \<in> fst ` set named" by (simp add: map_of_eq_None_iff)
  with Nil have "pk \<in> set (t_columns t)" by (auto simp: filter_empty_conv)
  then have "dict_get (stored_row (t_columns t) named) pk Null = dict_get named pk Null"
    by (simp add: dict_get_stored_row)
  with Nil assms show ?thesis
    by (auto simp: sql_insert_def Let_def split: list.splits)
qed

lemma insert_fact_inventory_duplicate:
  assumes "dict_get named ''kode'' Null = Text k"
    and "kode_exists k (working c)"
  shows "\<exists>e. insert_fact_inventory False named c = Inl e"
proof -
  from assms have "\<exists>e. sql_insert ''fact_inventory'' ''kode'' [''nama_aset''] False named
      (fact_inventory (working c)) = Inl e"
    by (intro sql_insert_duplicate) (auto simp: kode_exists_iff)
  then show ?thesis by (auto simp: insert_fact_inventory_def)
qed

lemma insert_dim_assets_keeps:
  "insert_dim_assets oi named c = Inr (n, c') \<Longrightarrow>
   committed c' = committed c \<and> fact_inventory (working c') = fact_inventory (working c)"
  by (auto simp: insert_dim_assets_def split: sum.splits)

lemma upsert_body_failure:
  assumes "upsert_body now asset_data inv_data c = (Some e, c')"
  shows "committed c' = committed c"
proof (cases "subscript asset_data ''nama_aset''")
  case (Inl e)
  with assms show ?thesis by (simp add: upsert_body_def)
next
  case (Inr name)
  show ?thesis
  proof (cases "filter (\<lambda>r. name \<noteq> Null \<and> dict_get r ''nama_aset'' Null = name)
                  (t_rows (dim_assets (working c)))")
    case Nil
    show ?thesis
    proof (cases "insert_dim_assets False
                       [(''nama_aset'', name),
                        (''brand'', dict_get asset_data ''brand'' (Text [])),
                        (''sub_klasifikasi'', dict_get asset_data ''sub_klasifikasi'' (Text [])),
                        (''jenis_aset'', dict_get asset_data ''jenis_aset'' (Text [])),
                        (''spesifikasi'', dict_get asset_data ''spesifikasi'' (Text [])),
                        (''os_default'', dict_get asset_data ''os_default'' (Text []))] c")
      case (Inl e)
      with assms Inr Nil show ?thesis by (simp add: upsert_body_def)
    next
      case ins: (Inr nc)
      obtain n c1 where nc: "nc = (n, c1)" by (cases nc) auto
      note keep = insert_dim_assets_keeps [OF ins [unfolded nc]]
      show ?thesis
      proof (cases "insert_fact_inventory False (upsert_inventory_values now inv_data) c1")
        case (Inl e2)
        with assms Inr Nil ins nc have "c' = c1" by (simp add: upsert_body_def)
        with keep show ?thesis by simp
      next
        case i2: (Inr mc)
        obtain m c2 where "mc = (m, c2)" by (cases mc) auto
        with assms Inr Nil ins nc i2 show ?thesis by (simp add: upsert_body_def)
      qed
    qed
  next
    case (Cons existing rest)
    show ?thesis
    proof (cases "insert_fact_inventory False
        (upsert_inventory_values now (fill_from_existing existing inv_data)) c")
      case (Inl e2)
      with assms Inr Cons show ?thesis by (simp add: upsert_body_def)
    next
      case i2: (Inr mc)
      obtain m c2 where "mc = (m, c2)" by (cases mc) auto
      with assms Inr Cons i2 show ?thesis by (simp add: upsert_body_def)
    qed
  qed
qed

lemma upsert_failure_unchanged:
  "fst (upsert_asset_and_inventory now asset_data inv_data db) = Inl e \<Longrightarrow>
   snd (upsert_asset_and_inventory now asset_data inv_data db) = db"
proof -
  assume a: "fst (upsert_asset_and_inventory now asset_data inv_data db) = Inl e"
  obtain r c' where b: "upsert_body now asset_data inv_data (get_connection db) = (r, c')"
    by (metis surj_pair)
  show ?thesis
  proof (cases r)
    case None
    with a b show ?thesis by (simp add: upsert_asset_and_inventory_def)
  next
    case (Some e')
    with b have "committed c' = committed (get_connection db)"
      by (auto dest: upsert_body_failure)
    with b Some show ?thesis
      by (simp add: upsert_asset_and_inventory_def close_def rollback_def get_connection_def)
  qed
qed

lemma upsert_body_duplicate:
  assumes "dict_get inv_data ''kode'' Null = Text k"
    and "kode_exists k (working c)"
  shows "\<exists>e c'. upsert_body now asset_data inv_data c = (Some e, c')"
proof (cases "subscript asset_data ''nama_aset''")
  case (Inl e)
  then show ?thesis by (simp add: upsert_body_def)
next
  case (Inr name)
  show ?thesis
  proof (cases "filter (\<lambda>r. name \<noteq> Null \<and> dict_get r ''nama_aset'' Null = name)
                  (t_rows (dim_assets (working c)))")
    case Nil
    show ?thesis
    proof (cases "insert_dim_assets False
                       [(''nama_aset'', name),
                        (''brand'', dict_get asset_data ''brand'' (Text [])),
                        (''sub_klasifikasi'', dict_get asset_data ''sub_klasifikasi'' (Text [])),
                        (''jenis_aset'', dict_get asset_data ''jenis_aset'' (Text [])),
                        (''spesifikasi'', dict_get asset_data ''spesifikasi'' (Text [])),
                        (''os_default'', dict_get asset_data ''os_default'' (Text []))] c")
      case (Inl e)
      with Inr Nil show ?thesis by (simp add: upsert_body_def)
    next
      case ins: (Inr nc)
      obtain n c1 where nc: "nc = (n, c1)" by (cases nc) auto
      from insert_dim_assets_keeps [OF ins [unfolded nc]] assms(2)
      have "kode_exists k (working c1)" by (simp add: kode_exists_iff)
      from insert_fact_inventory_duplicate [OF _ this,
          of "upsert_inventory_values now inv_data"] assms(1)
      obtain e where "insert_fact_inventory False (upsert_inventory_values now inv_data) c1
          = Inl e"
        by (auto simp: upsert_inventory_values_kode)
      with Inr Nil ins nc show ?thesis by (simp add: upsert_body_def)
    qed
  next
    case (Cons existing rest)
    from insert_fact_inventory_duplicate [OF _ assms(2),
        of "upsert_inventory_values now (fill_from_existing existing inv_data)"] assms(1)
    obtain e where "insert_fact_inventory False
        (upsert_inventory_values now (fill_from_existing existing inv_data)) c = Inl e"
      by (auto simp: upsert_inventory_values_kode fill_from_existing_kode)
    with Inr Cons show ?thesis by (simp add: upsert_body_def)
  qed
qed

lemma upsert_duplicate_fails:
  assumes "dict_get inv_data ''kode'' Null = Text k" and "kode_exists k db"
  shows "\<exists>e. upsert_asset_and_inventory now asset_data inv_data db = (Inl e, db)"
proof -
  from upsert_body_duplicate [OF assms(1), of "get_connection db" now asset_data] assms(2)
  obtain e c' where b: "upsert_body now asset_data inv_data (get_connection db) = (Some e, c')"
    by (auto simp: get_connection_def)
  then have "fst (upsert_asset_and_inventory now asset_data inv_data db) = Inl e"
    by (simp add: upsert_asset_and_inventory_def)
  with upsert_failure_unchanged [OF this] show ?thesis by (metis prod.collapse)
qed

lemma insert_dim_assets_strict:
  assumes "insert_dim_assets False named c = Inr (n, c')"
  shows "working c' = (working c)\<lparr>dim_assets := (dim_assets (working c))
            \<lparr>t_rows := t_rows (dim_assets (working c))
               @ [stored_row (t_columns (dim_assets (working c))) named]\<rparr>\<rparr>"
    and "set (map fst named) \<subseteq> set (t_columns (dim_assets (working c)))"
    and "committed c' = committed c"
proof -
  from assms obtain t' where s: "sql_insert ''dim_assets'' ''nama_aset'' [] False named
        (dim_assets (working c)) = Inr (n, t')"
    and c': "c' = c\<lparr>working := (working c)\<lparr>dim_assets := t'\<rparr>\<rparr>"
    by (auto simp: insert_dim_assets_def split: sum.splits)
  from sql_insert_strict_result [OF s] c'
  show "working c' = (working c)\<lparr>dim_assets := (dim_assets (working c))
            \<lparr>t_rows := t_rows (dim_assets (working c))
               @ [stored_row (t_columns (dim_assets (working c))) named]\<rparr>\<rparr>"
    and "set (map fst named) \<subseteq> set (t_columns (dim_assets (working c)))"
    and "committed c' = committed c"
    by simp_all
qed

lemma insert_fact_inventory_strict:
  assumes "insert_fact_inventory False named c = Inr (n, c')"
  shows "working c' = (working c)\<lparr>fact_inventory := (fact_inventory (working c))
            \<lparr>t_rows := t_rows (fact_inventory (working c))
               @ [stored_row (t_columns (fact_inventory (working c))) named]\<rparr>\<rparr>"
    and "set (map fst named) \<subseteq> set (t_columns (fact_inventory (working c)))"
proof -
  from assms obtain t' where s: "sql_insert ''fact_inventory'' ''kode'' [''nama_aset''] False named
        (fact_inventory (working c)) = Inr (n, t')"
    and c': "c' = c\<lparr>working := (working c)\<lparr>fact_inventory := t'\<rparr>\<rparr>"
    by (auto simp: insert_fact_inventory_def split: sum.splits)
  from sql_insert_strict_result [OF s] c'
  show "working c' = (working c)\<lparr>fact_inventory := (fact_inventory (working c))
            \<lparr>t_rows := t_rows (fact_inventory (working c))
               @ [stored_row (t_columns (fact_inventory (working c))) named]\<rparr>\<rparr>"
    and "set (map fst named) \<subseteq> set (t_columns (fact_inventory (working c)))"
    by simp_all
qed

lemma upsert_success_new_asset:
  assumes "upsert_asset_and_inventory now asset_data inv_data db = (Inr u, db')"
    and "map_of asset_data ''nama_aset'' = Some (Text a)"
    and "get_asset_by_name a db = None"
  shows "\<exists>arow irow.
      dim_assets db' = (dim_assets db)\<lparr>t_rows := t_rows (dim_assets db) @ [arow]\<rparr>
      \<and> fact_inventory db' = (fact_inventory db)\<lparr>t_rows := t_rows (fact_inventory db) @ [irow]\<rparr>
      \<and> dict_get arow ''nama_aset'' Null = Text a
      \<and> dict_get irow ''kode'' Null = dict_get inv_data ''kode'' Null"
proof -
  let ?c = "get_connection db"
  let ?avals = "[(''nama_aset'', Text a),
                        (''brand'', dict_get asset_data ''brand'' (Text [])),
                        (''sub_klasifikasi'', dict_get asset_data ''sub_klasifikasi'' (Text [])),
                        (''jenis_aset'', dict_get asset_data ''jenis_aset'' (Text [])),
                        (''spesifikasi'', dict_get asset_data ''spesifikasi'' (Text [])),
                        (''os_default'', dict_get asset_data ''os_default'' (Text []))]"
  let ?ivals = "upsert_inventory_values now inv_data"
  have sub: "subscript asset_data ''nama_aset'' = Inr (Text a)"
    using assms(2) by (simp add: subscript_def)
  have none: "filter (\<lambda>r. dict_get r ''nama_aset'' Null = Text a)
                  (t_rows (dim_assets (working ?c))) = []"
    using assms(3)
    by (auto simp: get_asset_by_name_def select_where_def get_connection_def split: list.splits)
  have body: "upsert_body now asset_data inv_data ?c =
      (case insert_dim_assets False ?avals ?c of
         Inl e \<Rightarrow> (Some e, ?c)
       | Inr (n, c1) \<Rightarrow>
           (case insert_fact_inventory False ?ivals c1 of
              Inl e \<Rightarrow> (Some e, c1)
            | Inr (m, c2) \<Rightarrow> (None, commit c2)))"
    by (simp add: upsert_body_def sub none)
  obtain r c' where b: "upsert_body now asset_data inv_data ?c = (r, c')" by (metis surj_pair)
  with assms(1) have r: "r = None" and db': "db' = close c'"
    by (auto simp: upsert_asset_and_inventory_def split: option.splits)
  from b r body obtain n c1 where i1: "insert_dim_assets False ?avals ?c = Inr (n, c1)"
    by (auto split: sum.splits)
  from b r body i1 obtain m c2 where i2: "insert_fact_inventory False ?ivals c1 = Inr (m, c2)"
    and c': "c' = commit c2"
    by (auto split: sum.splits)
  note d = insert_dim_assets_strict [OF i1]
  note f = insert_fact_inventory_strict [OF i2]
  let ?arow = "stored_row (t_columns (dim_assets db)) ?avals"
  let ?irow = "stored_row (t_columns (fact_inventory db)) ?ivals"
  have w1: "working c1 = db\<lparr>dim_assets := (dim_assets db)
            \<lparr>t_rows := t_rows (dim_assets db) @ [?arow]\<rparr>\<rparr>"
    using d(1) by (simp add: get_connection_def)
  have res: "db' = working c2" by (simp add: db' c' close_def commit_def)
  have a1: "dim_assets db' = (dim_assets db)\<lparr>t_rows := t_rows (dim_assets db) @ [?arow]\<rparr>"
    by (simp add: res f(1) w1)
  have a2: "fact_inventory db'
      = (fact_inventory db)\<lparr>t_rows := t_rows (fact_inventory db) @ [?irow]\<rparr>"
    by (simp add: res f(1) w1)
  have "''nama_aset'' \<in> set (t_columns (dim_assets db))"
    using d(2) by (simp add: get_connection_def)
  then have a3: "dict_get ?arow ''nama_aset'' Null = Text a"
    by (simp add: dict_get_stored_row) (simp add: dict_get_def)
  have "''kode'' \<in> set (t_columns (fact_inventory db))"
    using f(2) fact_columns_mem(1) by (auto simp: upsert_inventory_values_columns w1)
  then have a4: "dict_get ?irow ''kode'' Null = dict_get inv_data ''kode'' Null"
    by (simp add: dict_get_stored_row upsert_inventory_values_kode)
  from a1 a2 a3 a4 show ?thesis by blast
qed

text \<open>
  C10. When \<open>upsert_asset_and_inventory\<close> raises, the store is as before the call: an
  asset row inserted before the failure is rolled back with it. It raises when a record
  with the code of the inventory data exists already. When it returns and the asset was
  not in the catalog, the store holds one more asset row, for that asset, and one more
  inventory row, with the code of the inventory data.
\<close>

theorem upsert_atomic:
  "(fst (upsert_asset_and_inventory now asset_data inv_data db) = Inl e \<longrightarrow>
      snd (upsert_asset_and_inventory now asset_data inv_data db) = db)
   \<and> (dict_get inv_data ''kode'' Null = Text k \<and> kode_exists k db \<longrightarrow>
        (\<exists>e'. upsert_asset_and_inventory now asset_data inv_data db = (Inl e', db)))
   \<and> (upsert_asset_and_inventory now asset_data inv_data db = (Inr u, db')
        \<and> map_of asset_data ''nama_aset'' = Some (Text a) \<and> get_asset_by_name a db = None \<longrightarrow>
        (\<exists>arow irow.
           dim_assets db' = (dim_assets db)\<lparr>t_rows := t_rows (dim_assets db) @ [arow]\<rparr>
           \<and> fact_inventory db'
               = (fact_inventory db)\<lparr>t_rows := t_rows (fact_inventory db) @ [irow]\<rparr>
           \<and> dict_get arow ''nama_aset'' Null = Text a
           \<and> dict_get irow ''kode'' Null = dict_get inv_data ''kode'' Null))"
proof (intro conjI impI)
  assume "fst (upsert_asset_and_inventory now asset_data inv_data db) = Inl e"
  then show "snd (upsert_asset_and_inventory now asset_data inv_data db) = db"
    by (rule upsert_failure_unchanged)
next
  assume "dict_get inv_data ''kode'' Null = Text k \<and> kode_exists k db"
  then show "\<exists>e'. upsert_asset_and_inventory now asset_data inv_data db = (Inl e', db)"
    using upsert_duplicate_fails by blast
next
  assume "upsert_asset_and_inventory now asset_data inv_data db = (Inr u, db')
        \<and> map_of asset_data ''nama_aset'' = Some (Text a) \<and> get_asset_by_name a db = None"
  then show "\<exists>arow irow.
           dim_assets db' = (dim_assets db)\<lparr>t_rows := t_rows (dim_assets db) @ [arow]\<rparr>
           \<and> fact_inventory db'
               = (fact_inventory db)\<lparr>t_rows := t_rows (fact_inventory db) @ [irow]\<rparr>
           \<and> dict_get arow ''nama_aset'' Null = Text a
           \<and> dict_get irow ''kode'' Null = dict_get inv_data ''kode'' Null"
    using upsert_success_new_asset by blast
qed

theorem upsert_atomic_witness:
  "(\<exists>e'. upsert_asset_and_inventory ''2024-03-01T09:00:00''
            [(''nama_aset'', Text ''Printer''), (''brand'', Text ''Acme'')]
            [(''kode'', Text ''A001''), (''nama_aset'', Text ''Printer'')]
            (store_with [example_item ''A001'' ''SN-1''])
          = (Inl e', store_with [example_item ''A001'' ''SN-1'']))
   \<and> fst (upsert_asset_and_inventory ''2024-03-01T09:00:00''
            [(''nama_aset'', Text ''Printer''), (''brand'', Text ''Acme'')]
            [(''kode'', Text ''P001''), (''nama_aset'', Text ''Printer'')]
            (store_with [example_item ''A001'' ''SN-1''])) = Inr ()
   \<and> (\<exists>arow irow.
         t_rows (dim_assets (snd (upsert_asset_and_inventory ''2024-03-01T09:00:00''
            [(''nama_aset'', Text ''Printer''), (''brand'', Text ''Acme'')]
            [(''kode'', Text ''P001''), (''nama_aset'', Text ''Printer'')]
            (store_with [example_item ''A001'' ''SN-1'']))))
           = [example_asset, arow]
         \<and> t_rows (fact_inventory (snd (upsert_asset_and_inventory ''2024-03-01T09:00:00''
            [(''nama_aset'', Text ''Printer''), (''brand'', Text ''Acme'')]
            [(''kode'', Text ''P001''), (''nama_aset'', Text ''Printer'')]
            (store_with [example_item ''A001'' ''SN-1'']))))
           = [example_item ''A001'' ''SN-1'', irow]
         \<and> dict_get arow ''nama_aset'' Null = Text ''Printer''
         \<and> dict_get irow ''kode'' Null = Text ''P001'')"
proof -
  let ?db = "store_with [example_item ''A001'' ''SN-1'']"
  let ?asset = "[(''nama_aset'', Text ''Printer''), (''brand'', Text ''Acme'')]"
  let ?dup = "[(''kode'', Text ''A001''), (''nama_aset'', Text ''Printer'')]"
  let ?new = "[(''kode'', Text ''P001''), (''nama_aset'', Text ''Printer'')]"
  have k1: "dict_get ?dup ''kode'' Null = Text ''A001''" by (simp add: dict_get_def)
  have k2: "dict_get ?new ''kode'' Null = Text ''P001''" by (simp add: dict_get_def)
  have ex: "kode_exists ''A001'' ?db" by (simp add: kode_exists_store_with)
  have ok: "fst (upsert_asset_and_inventory ''2024-03-01T09:00:00'' ?asset ?new ?db) = Inr ()"
    by code_simp
  then have run: "upsert_asset_and_inventory ''2024-03-01T09:00:00'' ?asset ?new ?db
      = (Inr (), snd (upsert_asset_and_inventory ''2024-03-01T09:00:00'' ?asset ?new ?db))"
    by (simp add: prod_eq_iff)
  have m: "map_of ?asset ''nama_aset'' = Some (Text ''Printer'')" by simp
  have g: "get_asset_by_name ''Printer'' ?db = None" by code_simp
  note t1 = upsert_atomic [of "''2024-03-01T09:00:00''" ?asset ?dup ?db _ "''A001''"]
  note t2 = upsert_atomic [of "''2024-03-01T09:00:00''" ?asset ?new ?db _ _ "()"
      "snd (upsert_asset_and_inventory ''2024-03-01T09:00:00'' ?asset ?new ?db)" "''Printer''"]
  from t1 k1 ex have a: "\<exists>e'. upsert_asset_and_inventory ''2024-03-01T09:00:00'' ?asset ?dup ?db
      = (Inl e', ?db)"
    by blast
  from t2 run m g have "\<exists>arow irow.
      dim_assets (snd (upsert_asset_and_inventory ''2024-03-01T09:00:00'' ?asset ?new ?db))
        = (dim_assets ?db)\<lparr>t_rows := t_rows (dim_assets ?db) @ [arow]\<rparr>
      \<and> fact_inventory (snd (upsert_asset_and_inventory ''2024-03-01T09:00:00'' ?asset ?new ?db))
        = (fact_inventory ?db)\<lparr>t_rows := t_rows (fact_inventory ?db) @ [irow]\<rparr>
      \<and> dict_get arow ''nama_aset'' Null = Text ''Printer''
      \<and> dict_get irow ''kode'' Null = dict_get ?new ''kode'' Null"
    by blast
  then have b: "\<exists>arow irow.
         t_rows (dim_assets (snd (upsert_asset_and_inventory ''2024-03-01T09:00:00''
            ?asset ?new ?db))) = [example_asset, arow]
         \<and> t_rows (fact_inventory (snd (upsert_asset_and_inventory ''2024-03-01T09:00:00''
            ?asset ?new ?db))) = [example_item ''A001'' ''SN-1'', irow]
         \<and> dict_get arow ''nama_aset'' Null = Text ''Printer''
         \<and> dict_get irow ''kode'' Null = Text ''P001''"
    by (auto simp: k2 store_with_def)
  from a ok b show ?thesis by (intro conjI)
qed

section \<open>The comparison of a field: proofs\<close>

lemma py_float_empty: "py_float rt [] = None"
  by (simp add: py_float_def strip_def strip_sign_def lower_def parse_floatnumber_def
      parse_number_def)

lemma excel_value_cases:
  "excel_value rt None = []"
  "isna c \<Longrightarrow> excel_value rt (Some c) = []"
  "lower (strip (cell_str rt c)) = ''nan'' \<Longrightarrow> excel_value rt (Some c) = []"
  "\<not> isna c \<Longrightarrow> lower (strip (cell_str rt c)) \<noteq> ''nan'' \<Longrightarrow>
     excel_value rt (Some c) = strip (cell_str rt c)"
  by (simp_all add: excel_value_def nan_to_empty_def strip_def lower_def)

lemma db_value_cases:
  "db_value rt None = []"
  "db_value rt (Some Null) = []"
  "lower (strip (sql_str rt v)) = ''nan'' \<Longrightarrow> db_value rt (Some v) = []"
  "v \<noteq> Null \<Longrightarrow> lower (strip (sql_str rt v)) \<noteq> ''nan'' \<Longrightarrow>
     db_value rt (Some v) = strip (sql_str rt v)"
  by (simp_all add: db_value_def nan_to_empty_def strip_def lower_def)

lemma field_changed_numbers:
  assumes "py_float rt (excel_value rt raw_excel) = Some (FNum x)"
    and "py_float rt (db_value rt raw_db) = Some (FNum y)"
  shows "field_changed rt raw_excel raw_db \<longleftrightarrow> x \<noteq> y"
proof -
  from assms have ne: "excel_value rt raw_excel \<noteq> []" "db_value rt raw_db \<noteq> []"
    using py_float_empty [of rt] by auto
  have num: "numeric_equal rt (excel_value rt raw_excel) (db_value rt raw_db) \<longleftrightarrow> x = y"
    using assms ne by (simp add: numeric_equal_def)
  have "x \<noteq> y \<Longrightarrow> excel_value rt raw_excel \<noteq> db_value rt raw_db"
    using assms by auto
  with num show ?thesis by (auto simp: field_changed_def Let_def)
qed

lemma field_changed_strings:
  assumes "py_float rt (excel_value rt raw_excel) \<in> {None, Some FNaN}
       \<or> py_float rt (db_value rt raw_db) \<in> {None, Some FNaN}"
  shows "field_changed rt raw_excel raw_db
           \<longleftrightarrow> excel_value rt raw_excel \<noteq> db_value rt raw_db"
proof -
  have "\<not> numeric_equal rt (excel_value rt raw_excel) (db_value rt raw_db)"
    using assms by (auto simp: numeric_equal_def split: option.splits float_value.splits)
  then show ?thesis by (simp add: field_changed_def Let_def)
qed

lemma digit_char_values:
  "digit_char 0 = CHR ''0''" "digit_char 1 = CHR ''1''" "digit_char (Suc 0) = CHR ''1''"
  "digit_char 2 = CHR ''2''" "digit_char 3 = CHR ''3''" "digit_char 4 = CHR ''4''"
  "digit_char 5 = CHR ''5''" "digit_char 6 = CHR ''6''" "digit_char 7 = CHR ''7''"
  "digit_char 8 = CHR ''8''" "digit_char 9 = CHR ''9''"
  by code_simp+

lemma example_amount_str: "py_str_int 17700000 = ''17700000''"
  by (simp add: py_str_int_def str_nat.simps digit_char_values)

lemma example_amount_number:
  "parse_number ''17700000.0'' = Some (177000000, 1)"
  "parse_number ''17700000'' = Some (17700000, 0)"
  by (simp_all add: parse_number_def is_digit_def digits_value_def digit_val_def)

lemma example_amount_parse:
  "strip ''17700000.0'' = ''17700000.0''" "strip ''17700000'' = ''17700000''"
  "strip_sign ''17700000.0'' = (False, ''17700000.0'')"
  "strip_sign ''17700000'' = (False, ''17700000'')"
  "lower ''17700000.0'' = ''17700000.0''" "lower ''17700000'' = ''17700000''"
  "parse_floatnumber ''17700000.0'' = Some 17700000"
  "parse_floatnumber ''17700000'' = Some 17700000"
  "py_str_int 17700000 = ''17700000''"
proof -
  show "strip ''17700000.0'' = ''17700000.0''" by code_simp
  show "strip ''17700000'' = ''17700000''" by code_simp
  show "strip_sign ''17700000.0'' = (False, ''17700000.0'')" by code_simp
  show "strip_sign ''17700000'' = (False, ''17700000'')" by code_simp
  show "lower ''17700000.0'' = ''17700000.0''" by code_simp
  show "lower ''17700000'' = ''17700000''" by code_simp
  show "parse_floatnumber ''17700000.0'' = Some 17700000"
    by (simp add: parse_floatnumber_def example_amount_number is_exp_mark_def)
  show "parse_floatnumber ''17700000'' = Some 17700000"
    by (simp add: parse_floatnumber_def example_amount_number is_exp_mark_def)
  show "py_str_int 17700000 = ''17700000''" by (rule example_amount_str)
qed

lemma example_amount_float:
  "py_float rt ''17700000.0'' = Some (FNum (round_double rt 17700000))"
  "py_float rt ''17700000'' = Some (FNum (round_double rt 17700000))"
  by (simp_all add: py_float_def example_amount_parse)

lemma example_amount_unchanged:
  "\<not> field_changed rt (Some (CStr ''17700000.0'')) (Some (Integer 17700000))"
  "\<not> field_changed rt (Some (CStr ''17700000.0'')) (Some (Text ''17700000''))"
proof -
  have e: "excel_value rt (Some (CStr ''17700000.0'')) = ''17700000.0''"
    by (simp add: excel_value_def nan_to_empty_def example_amount_parse)
  have d1: "db_value rt (Some (Integer 17700000)) = ''17700000''"
    by (simp add: db_value_def nan_to_empty_def example_amount_parse)
  have d2: "db_value rt (Some (Text ''17700000'')) = ''17700000''"
    by (simp add: db_value_def nan_to_empty_def example_amount_parse)
  show "\<not> field_changed rt (Some (CStr ''17700000.0'')) (Some (Integer 17700000))"
    using field_changed_numbers [of rt "Some (CStr ''17700000.0'')" _ "Some (Integer 17700000)"]
    by (simp add: e d1 example_amount_float)
  show "\<not> field_changed rt (Some (CStr ''17700000.0'')) (Some (Text ''17700000''))"
    using field_changed_numbers [of rt "Some (CStr ''17700000.0'')" _ "Some (Text ''17700000'')"]
    by (simp add: e d2 example_amount_float)
qed

lemma compare_field_flag:
  "fst (compare_field rt cols r db_row (has_changes, change_record) (excel_col, db_col))
     = (has_changes \<or> field_changed rt (row_get cols r excel_col) (map_of db_row db_col))"
  by simp

text \<open>
  C5. In the comparison of a field pair, a missing key, a missing value (a null on the
  stored side) and a text that is \<open>nan\<close> in any letter case give the empty string, on both
  sides; any other value gives its trimmed text. When both texts are accepted by \<open>float\<close>
  as numbers, the field is flagged exactly when the two numbers differ. When one of them
  is not (it is rejected, or is NaN), the field is flagged exactly when the two trimmed
  texts differ. The loop sets \<open>has_changes\<close> exactly for a flagged field. A stored
  \<open>17700000\<close>, integer or text, and the spreadsheet text \<open>17700000.0\<close> are not flagged.
\<close>

theorem field_comparison:
  "excel_value rt None = []
   \<and> (isna c \<longrightarrow> excel_value rt (Some c) = [])
   \<and> (lower (strip (cell_str rt c)) = ''nan'' \<longrightarrow> excel_value rt (Some c) = [])
   \<and> (\<not> isna c \<and> lower (strip (cell_str rt c)) \<noteq> ''nan'' \<longrightarrow>
        excel_value rt (Some c) = strip (cell_str rt c))
   \<and> db_value rt None = []
   \<and> db_value rt (Some Null) = []
   \<and> (lower (strip (sql_str rt v)) = ''nan'' \<longrightarrow> db_value rt (Some v) = [])
   \<and> (v \<noteq> Null \<and> lower (strip (sql_str rt v)) \<noteq> ''nan'' \<longrightarrow>
        db_value rt (Some v) = strip (sql_str rt v))
   \<and> (py_float rt (excel_value rt raw_excel) = Some (FNum x)
        \<and> py_float rt (db_value rt raw_db) = Some (FNum y) \<longrightarrow>
        (field_changed rt raw_excel raw_db \<longleftrightarrow> x \<noteq> y))
   \<and> (py_float rt (excel_value rt raw_excel) \<in> {None, Some FNaN}
        \<or> py_float rt (db_value rt raw_db) \<in> {None, Some FNaN} \<longrightarrow>
        (field_changed rt raw_excel raw_db
           \<longleftrightarrow> excel_value rt raw_excel \<noteq> db_value rt raw_db))
   \<and> fst (compare_field rt cols r db_row (has_changes, change_record) (excel_col, db_col))
       = (has_changes \<or> field_changed rt (row_get cols r excel_col) (map_of db_row db_col))
   \<and> \<not> field_changed rt (Some (CStr ''17700000.0'')) (Some (Integer 17700000))
   \<and> \<not> field_changed rt (Some (CStr ''17700000.0'')) (Some (Text ''17700000''))"
proof -
  have n: "py_float rt (excel_value rt raw_excel) = Some (FNum x)
        \<and> py_float rt (db_value rt raw_db) = Some (FNum y) \<longrightarrow>
        (field_changed rt raw_excel raw_db \<longleftrightarrow> x \<noteq> y)"
    using field_changed_numbers by blast
  have s: "py_float rt (excel_value rt raw_excel) \<in> {None, Some FNaN}
        \<or> py_float rt (db_value rt raw_db) \<in> {None, Some FNaN} \<longrightarrow>
        (field_changed rt raw_excel raw_db
           \<longleftrightarrow> excel_value rt raw_excel \<noteq> db_value rt raw_db)"
    using field_changed_strings by blast
  have e4: "\<not> isna c \<and> lower (strip (cell_str rt c)) \<noteq> ''nan'' \<longrightarrow>
        excel_value rt (Some c) = strip (cell_str rt c)"
    using excel_value_cases(4) by blast
  have d4: "v \<noteq> Null \<and> lower (strip (sql_str rt v)) \<noteq> ''nan'' \<longrightarrow>
        db_value rt (Some v) = strip (sql_str rt v)"
    using db_value_cases(4) by blast
  have e2: "isna c \<longrightarrow> excel_value rt (Some c) = []"
    using excel_value_cases(2) by blast
  have e3: "lower (strip (cell_str rt c)) = ''nan'' \<longrightarrow> excel_value rt (Some c) = []"
    using excel_value_cases(3) by blast
  have d3: "lower (strip (sql_str rt v)) = ''nan'' \<longrightarrow> db_value rt (Some v) = []"
    using db_value_cases(3) by blast
  note e1 = excel_value_cases(1) [of rt]
  note d1 = db_value_cases(1) [of rt]
  note d2 = db_value_cases(2) [of rt]
  note cf = compare_field_flag [of rt cols r db_row has_changes change_record excel_col db_col]
  note x1 = example_amount_unchanged(1) [of rt]
  note x2 = example_amount_unchanged(2) [of rt]
  from e1 e2 e3 e4 d1 d2 d3 d4 n s cf x1 x2 show ?thesis by (intro conjI)
qed

lemma example_texts:
  "lower (strip (cell_str example_runtime (CStr '' NaN ''))) = ''nan''"
  "lower (strip (sql_str example_runtime (Text ''nan''))) = ''nan''"
  "excel_value example_runtime (Some (CStr ''Jakarta'')) = ''Jakarta''"
  "excel_value example_runtime (Some (CStr '' Jakarta '')) = ''Jakarta''"
  "db_value example_runtime (Some (Text ''Bandung'')) = ''Bandung''"
  "db_value example_runtime (Some (Text ''Jakarta'')) = ''Jakarta''"
  "py_float example_runtime ''Jakarta'' = None"
  by code_simp+

theorem field_comparison_witness:
  "excel_value example_runtime (Some CNaN) = []
   \<and> excel_value example_runtime (Some (CStr '' NaN '')) = []
   \<and> db_value example_runtime (Some (Text ''nan'')) = []
   \<and> \<not> field_changed example_runtime (Some (CStr ''17700000.0'')) (Some (Integer 17700000))
   \<and> field_changed example_runtime (Some (CStr ''Jakarta'')) (Some (Text ''Bandung''))
   \<and> \<not> field_changed example_runtime (Some (CStr '' Jakarta '')) (Some (Text ''Jakarta''))"
proof -
  note t1 = field_comparison [where rt = example_runtime and c = CNaN]
  note t2 = field_comparison [where rt = example_runtime and c = "CStr '' NaN ''"
      and v = "Text ''nan''"]
  note t3 = field_comparison [where rt = example_runtime
      and raw_excel = "Some (CStr ''Jakarta'')" and raw_db = "Some (Text ''Bandung'')"]
  note t4 = field_comparison [where rt = example_runtime
      and raw_excel = "Some (CStr '' Jakarta '')" and raw_db = "Some (Text ''Jakarta'')"]
  from t1 have a: "excel_value example_runtime (Some CNaN) = []" by simp
  from t2 have b: "excel_value example_runtime (Some (CStr '' NaN '')) = []"
    and c: "db_value example_runtime (Some (Text ''nan'')) = []"
    and d: "\<not> field_changed example_runtime (Some (CStr ''17700000.0''))
              (Some (Integer 17700000))"
    using example_texts(1,2) by blast+
  from t3 have e: "field_changed example_runtime (Some (CStr ''Jakarta''))
      (Some (Text ''Bandung''))"
    by (simp add: example_texts)
  from t4 have f: "\<not> field_changed example_runtime (Some (CStr '' Jakarta ''))
      (Some (Text ''Jakarta''))"
    by (simp add: example_texts)
  from a b c d e f show ?thesis by (intro conjI)
qed

section \<open>The directory scan: proofs\<close>


lemma scan_directory_failure:
  assumes "load_inventory (create_tables dbf) = Inl e"
  shows "scan_directory rt now dirs dbf prev = (Some e, prev)"
  by (simp add: scan_directory_def assms)

lemma load_inventory_own_schema:
  assumes "file_fact_inventory dbf = None"
  shows "load_inventory (create_tables dbf) = Inl (OperationalError ''no such column: is_deleted'')"
  by (simp add: load_inventory_def create_tables_def assms fact_inventory_columns_def)

lemma scan_directory_own_schema:
  assumes "file_fact_inventory dbf = None"
  shows "scan_directory rt now dirs dbf prev =
     (Some (OperationalError ''no such column: is_deleted''), prev)"
  by (rule scan_directory_failure [OF load_inventory_own_schema [OF assms]])




lemma compare_fold_flag:
  "fst (foldl (compare_field rt cols r db_row) (h, cr) fs) =
     (h \<or> (\<exists>(excel_col, db_col) \<in> set fs.
              field_changed rt (row_get cols r excel_col) (map_of db_row db_col)))"
proof (induction fs arbitrary: h cr)
  case Nil
  then show ?case by simp
next
  case (Cons p fs)
  obtain ec dc where p: "p = (ec, dc)" by (cases p) auto
  obtain h1 cr1 where s: "compare_field rt cols r db_row (h, cr) (ec, dc) = (h1, cr1)"
    by (metis surj_pair)
  have h1: "h1 = (h \<or> field_changed rt (row_get cols r ec) (map_of db_row dc))"
    using compare_field_flag [of rt cols r db_row h cr ec dc] s by simp
  have "foldl (compare_field rt cols r db_row) (h, cr) (p # fs)
      = foldl (compare_field rt cols r db_row) (h1, cr1) fs"
    by (simp only: foldl_Cons p s)
  then show ?case by (auto simp: Cons.IH h1 p)
qed

lemma classify_row_sync:
  assumes "row_kode rt cols r \<noteq> [] \<longrightarrow>
         (case map_of dbi (Text (row_kode rt cols r)) of
            None \<Rightarrow> False
          | Some db_row \<Rightarrow>
              (\<forall>(excel_col, db_col) \<in> set compare_fields.
                 \<not> field_changed rt (row_get cols r excel_col) (map_of db_row db_col)))"
  shows "classify_row rt dbi cols (new, changed, ks) r =
     (new, changed, if row_kode rt cols r = [] then ks else ks @ [row_kode rt cols r])"
proof (cases "row_kode rt cols r = []")
  case True
  then show ?thesis by (simp add: row_kode_def Let_def)
next
  case False
  with assms obtain db_row where m: "map_of dbi (Text (row_kode rt cols r)) = Some db_row"
    and nc: "\<forall>(excel_col, db_col) \<in> set compare_fields.
                 \<not> field_changed rt (row_get cols r excel_col) (map_of db_row db_col)"
    by (auto split: option.splits)
  have "fst (foldl (compare_field rt cols r db_row) (False, [(''Kode'', row_kode rt cols r)])
      compare_fields) = False"
    using nc by (simp only: compare_fold_flag) auto
  then obtain cr where "foldl (compare_field rt cols r db_row)
      (False, [(''Kode'', row_kode rt cols r)]) compare_fields = (False, cr)"
    by (metis prod.collapse)
  with False m show ?thesis by (simp add: row_kode_def [symmetric] Let_def)
qed

lemma classify_fold_sync:
  assumes "\<forall>r \<in> set rows. row_kode rt cols r \<noteq> [] \<longrightarrow>
         (case map_of dbi (Text (row_kode rt cols r)) of
            None \<Rightarrow> False
          | Some db_row \<Rightarrow>
              (\<forall>(excel_col, db_col) \<in> set compare_fields.
                 \<not> field_changed rt (row_get cols r excel_col) (map_of db_row db_col)))"
  shows "foldl (classify_row rt dbi cols) (new, changed, ks) rows =
     (new, changed, ks @ filter (\<lambda>k. k \<noteq> []) (map (row_kode rt cols) rows))"
  using assms
proof (induction rows arbitrary: ks)
  case Nil
  then show ?case by simp
next
  case (Cons r rows)
  from Cons.prems have r: "row_kode rt cols r \<noteq> [] \<longrightarrow>
         (case map_of dbi (Text (row_kode rt cols r)) of
            None \<Rightarrow> False
          | Some db_row \<Rightarrow>
              (\<forall>(excel_col, db_col) \<in> set compare_fields.
                 \<not> field_changed rt (row_get cols r excel_col) (map_of db_row db_col)))"
    by simp
  from Cons.prems have rest: "\<forall>r \<in> set rows. row_kode rt cols r \<noteq> [] \<longrightarrow>
         (case map_of dbi (Text (row_kode rt cols r)) of
            None \<Rightarrow> False
          | Some db_row \<Rightarrow>
              (\<forall>(excel_col, db_col) \<in> set compare_fields.
                 \<not> field_changed rt (row_get cols r excel_col) (map_of db_row db_col)))"
    by simp
  show ?case
    by (simp only: foldl_Cons classify_row_sync [OF r] Cons.IH [OF rest])
       (simp split: if_splits)
qed

lemma missing_of_empty:
  "missing_of dbi ks = [] \<longleftrightarrow> (\<forall>(kode, db_row) \<in> set dbi. in_excel_kodes kode ks)"
  by (auto simp: missing_of_def filter_empty_conv)

lemma scan_file_in_sync:
  assumes "content f = Inr df" and "in_sync rt dbi df"
  shows "scan_file rt dbi dir f = None"
proof -
  let ?cols = "map strip (df_columns df)"
  let ?ks = "filter (\<lambda>k. k \<noteq> []) (map (row_kode rt ?cols) (df_rows df))"
  from assms(2) have rows: "\<forall>r \<in> set (df_rows df). row_kode rt ?cols r \<noteq> [] \<longrightarrow>
         (case map_of dbi (Text (row_kode rt ?cols r)) of
            None \<Rightarrow> False
          | Some db_row \<Rightarrow>
              (\<forall>(excel_col, db_col) \<in> set compare_fields.
                 \<not> field_changed rt (row_get ?cols r excel_col) (map_of db_row db_col)))"
    and recs: "\<forall>(kode, db_row) \<in> set dbi.
            \<exists>r \<in> set (df_rows df). row_kode rt ?cols r \<noteq> [] \<and> kode = Text (row_kode rt ?cols r)"
    by (simp_all add: in_sync_def Let_def)
  have fold: "foldl (classify_row rt dbi ?cols) ([], [], []) (df_rows df) = ([], [], ?ks)"
    using classify_fold_sync [OF rows, of "[]" "[]" "[]"] by simp
  have "\<forall>(kode, db_row) \<in> set dbi. in_excel_kodes kode ?ks"
    using recs by (fastforce simp: in_excel_kodes_def)
  then have miss: "missing_of dbi ?ks = []" by (simp add: missing_of_empty)
  show ?thesis
    by (simp add: scan_file_def assms(1) Let_def fold miss)
qed

lemma concat_map_empty: "concat (map g xs) = [] \<longleftrightarrow> (\<forall>x \<in> set xs. g x = [])"
  by (induction xs) auto

lemma detect_empty:
  "detect rt dbi dirs = [] \<longleftrightarrow>
     (\<forall>d \<in> set dirs. dir_exists d \<longrightarrow>
        (\<forall>f \<in> set (dir_xlsx d). scan_file rt dbi (dir_path d) f = None))"
  unfolding detect_def concat_map_empty by (auto split: option.splits if_splits)

lemma scan_file_unreadable: "content f = Inl e \<Longrightarrow> scan_file rt dbi dir f = None"
  by (simp add: scan_file_def)

lemma detect_in_sync:
  assumes "\<forall>d \<in> set dirs. \<forall>f \<in> set (dir_xlsx d). \<forall>df. content f = Inr df \<longrightarrow> in_sync rt dbi df"
  shows "detect rt dbi dirs = []"
proof -
  have "scan_file rt dbi (dir_path d) f = None" if "d \<in> set dirs" "f \<in> set (dir_xlsx d)" for d f
  proof (cases "content f")
    case (Inl e)
    then show ?thesis by (rule scan_file_unreadable)
  next
    case (Inr df)
    with assms that have "in_sync rt dbi df" by blast
    with Inr show ?thesis by (rule scan_file_in_sync)
  qed
  then show ?thesis by (simp add: detect_empty)
qed


lemma example_scan_record_fields:
  "dict_get (example_scan_record h) ''kode'' Null = Text ''A001''"
  "dict_get (example_scan_record h) ''is_deleted'' Null = Integer 0"
  "map_of (example_scan_record h) ''harga_pembelian'' = Some h"
  by (simp_all add: example_scan_record_def stored_row_def dict_get_def map_of_cols
      fact_inventory_columns_def)

lemma example_scan_record_other:
  "c \<in> set fact_inventory_columns \<Longrightarrow>
   c \<notin> set [''kode'', ''serial_number'', ''nama_aset'', ''harga_pembelian''] \<Longrightarrow>
   map_of (example_scan_record h) c = Some Null"
proof -
  assume a: "c \<in> set fact_inventory_columns"
    and b: "c \<notin> set [''kode'', ''serial_number'', ''nama_aset'', ''harga_pembelian'']"
  from a have "c \<noteq> ''is_deleted''" by (auto simp: fact_inventory_columns_def)
  with a b show ?thesis
    by (simp add: example_scan_record_def stored_row_def map_of_cols dict_get_def)
qed

lemma example_load:
  "load_inventory (create_tables (example_scan_db h)) = Inr [(Text ''A001'', example_scan_record h)]"
  by (simp add: load_inventory_def create_tables_def example_scan_db_def not_deleted_def
      example_scan_record_fields)

lemma field_changed_absent:
  "\<not> field_changed rt None (Some Null)"
  by (simp add: field_changed_def excel_value_cases db_value_cases)

lemma example_synced_cols:
  "map strip (df_columns example_synced_sheet)
     = [''Kode'', ''Nama Aset'', ''Serial Number'', ''Harga Pembelian'']"
  by code_simp

lemma example_synced_kode:
  "row_kode example_runtime [''Kode'', ''Nama Aset'', ''Serial Number'', ''Harga Pembelian'']
     [CStr ''A001'', CStr ''Laptop'', CStr ''SN-100'', CStr ''17700000.0''] = ''A001''"
  by code_simp

lemma example_in_sync:
  "in_sync example_runtime [(Text ''A001'', example_scan_record (Integer 17700000))]
     example_synced_sheet"
  unfolding in_sync_def Let_def example_synced_cols
  by (simp add: example_synced_sheet_def example_synced_kode compare_fields_def row_get_def
      example_scan_record_fields example_scan_record_other fact_inventory_columns_def
      field_changed_absent example_amount_unchanged)



section \<open>The publication of the scan result: proofs\<close>

lemma publish_steps_values:
  "publish_steps now d s0 =
     [s0\<lparr>last_scan := Some now\<rparr>,
      s0\<lparr>last_scan := Some now, detected_files := d\<rparr>,
      \<lparr>detected_files = d, last_scan = Some now,
       status = (if d \<noteq> [] then ''warning'' else ''ok'')\<rparr>]"
  by (cases s0) (simp add: publish_steps_def Let_def)

text \<open>
  C9, as amended. The scan ends with three assignments to the one process-wide result:
  the time of the scan, then the list of reports, then the status. After the first the
  result holds the new time with the list and status of before, after the second the
  new time and list with the status of before, after the third the complete new result,
  which holds nothing of the result of before. A scan whose inventory query raises
  assigns nothing, and the result of before stays.
\<close>

theorem publish_in_steps:
  "publish_steps now d s0 =
     [s0\<lparr>last_scan := Some now\<rparr>,
      s0\<lparr>last_scan := Some now, detected_files := d\<rparr>,
      \<lparr>detected_files = d, last_scan = Some now,
       status = (if d \<noteq> [] then ''warning'' else ''ok'')\<rparr>]
   \<and> (load_inventory (create_tables dbf) = Inr dbi \<longrightarrow>
        scan_directory rt now dirs dbf s0
          = (None, last (publish_steps now (detect rt dbi dirs) s0))
        \<and> snd (scan_directory rt now dirs dbf s0)
          = \<lparr>detected_files = detect rt dbi dirs, last_scan = Some now,
             status = (if detect rt dbi dirs \<noteq> [] then ''warning'' else ''ok'')\<rparr>)
   \<and> (load_inventory (create_tables dbf) = Inl e \<longrightarrow>
        scan_directory rt now dirs dbf s0 = (Some e, s0))"
proof -
  have a: "load_inventory (create_tables dbf) = Inr dbi \<longrightarrow>
        scan_directory rt now dirs dbf s0
          = (None, last (publish_steps now (detect rt dbi dirs) s0))
        \<and> snd (scan_directory rt now dirs dbf s0)
          = \<lparr>detected_files = detect rt dbi dirs, last_scan = Some now,
             status = (if detect rt dbi dirs \<noteq> [] then ''warning'' else ''ok'')\<rparr>"
    by (simp add: scan_directory_def publish_steps_values)
  have b: "load_inventory (create_tables dbf) = Inl e \<longrightarrow>
        scan_directory rt now dirs dbf s0 = (Some e, s0)"
    by (simp add: scan_directory_def)
  from publish_steps_values [of now d s0] a b show ?thesis by (intro conjI)
qed

theorem publish_in_steps_witness:
  "snd (scan_directory example_runtime ''2024-03-02T10:00:00''
      (example_dirs example_synced_sheet) (example_scan_db (Integer 17700000)) example_previous)
     = \<lparr>detected_files = [], last_scan = Some ''2024-03-02T10:00:00'', status = ''ok''\<rparr>
   \<and> scan_directory example_runtime ''2024-03-02T10:00:00''
      (example_dirs example_synced_sheet)
      \<lparr>file_dim_assets = None, file_fact_inventory = None\<rparr> example_previous
     = (Some (OperationalError ''no such column: is_deleted''), example_previous)"
proof -
  have sync: "\<forall>d \<in> set (example_dirs example_synced_sheet). \<forall>f \<in> set (dir_xlsx d). \<forall>df.
      content f = Inr df \<longrightarrow>
      in_sync example_runtime [(Text ''A001'', example_scan_record (Integer 17700000))] df"
    by (simp add: example_dirs_def example_in_sync)
  have det: "detect example_runtime [(Text ''A001'', example_scan_record (Integer 17700000))]
      (example_dirs example_synced_sheet) = []"
    by (rule detect_in_sync [OF sync])
  have own: "load_inventory (create_tables \<lparr>file_dim_assets = None, file_fact_inventory = None\<rparr>)
      = Inl (OperationalError ''no such column: is_deleted'')"
    by (rule load_inventory_own_schema) simp
  from publish_in_steps [of "''2024-03-02T10:00:00''" "[]" example_previous
      "example_scan_db (Integer 17700000)"
      "[(Text ''A001'', example_scan_record (Integer 17700000))]" example_runtime
      "example_dirs example_synced_sheet"] example_load det
  have a: "snd (scan_directory example_runtime ''2024-03-02T10:00:00''
      (example_dirs example_synced_sheet) (example_scan_db (Integer 17700000)) example_previous)
     = \<lparr>detected_files = [], last_scan = Some ''2024-03-02T10:00:00'', status = ''ok''\<rparr>"
    by simp
  from publish_in_steps [of "''2024-03-02T10:00:00''" "[]" example_previous
      "\<lparr>file_dim_assets = None, file_fact_inventory = None\<rparr>" _ example_runtime
      "example_dirs example_synced_sheet" "OperationalError ''no such column: is_deleted''"] own
  have b: "scan_directory example_runtime ''2024-03-02T10:00:00''
      (example_dirs example_synced_sheet)
      \<lparr>file_dim_assets = None, file_fact_inventory = None\<rparr> example_previous
     = (Some (OperationalError ''no such column: is_deleted''), example_previous)"
    by simp
  from a b show ?thesis by (intro conjI)
qed

text \<open>
  Against C9 as stated: when a scan that finds nothing publishes over a result that
  reported one file, the first of the values the result takes is neither the result of
  before nor the new one: it has the new time with the list and the status of before.
\<close>

theorem publish_counterexample:
  "hd (publish_steps ''2024-03-02T10:00:00'' [] example_previous) \<noteq> example_previous
   \<and> hd (publish_steps ''2024-03-02T10:00:00'' [] example_previous)
       \<noteq> last (publish_steps ''2024-03-02T10:00:00'' [] example_previous)
   \<and> last_scan (hd (publish_steps ''2024-03-02T10:00:00'' [] example_previous))
       = Some ''2024-03-02T10:00:00''
   \<and> detected_files (hd (publish_steps ''2024-03-02T10:00:00'' [] example_previous))
       = detected_files example_previous
   \<and> status (hd (publish_steps ''2024-03-02T10:00:00'' [] example_previous)) = ''warning''
   \<and> last (publish_steps ''2024-03-02T10:00:00'' [] example_previous)
       = \<lparr>detected_files = [], last_scan = Some ''2024-03-02T10:00:00'', status = ''ok''\<rparr>"
  by (simp add: publish_steps_values example_previous_def)

end
